theory Spec2Isabelle
  imports Main "HOL-Library.Word" "HOL-Library.Sublist"
begin

section \<open>The xcsg driver (xcsg\_main.cpp) as a trace-producing program\<close>

text \<open>
  \<^verbatim>\<open>xcsg_main\<close> orchestrates collaborators that live outside this file: the command
  line, the XML tree, the object factory, the carve and clipper kernels, the triangulator
  and the file encoders. The embedding keeps the control flow of \<^verbatim>\<open>run\<close>,
  \<^verbatim>\<open>run_xsolid\<close> and \<^verbatim>\<open>run_xshape2d\<close> as written and takes every collaborator as a
  field of an environment record, so each theorem holds for every behaviour of the
  collaborators. A run yields the list of observable events in program order (console
  lines and collaborator calls) together with its outcome: \<open>Inr\<close> the returned value, or
  \<open>Inl\<close> the exception that leaves the function.
\<close>

subsection \<open>Values\<close>

text \<open>\<^verbatim>\<open>size_t\<close> on the LP64 targets of the program.\<close>

type_synonym size_t = "64 word"

text \<open>
  The exception classes the driver throws or lets through. \<^verbatim>\<open>carve::exception\<close> is the
  only class named in a handler of \<^verbatim>\<open>run_xsolid\<close>; \<open>OtherException\<close> stands for every
  other class a collaborator may throw.
\<close>

datatype xerror =
    LogicError string
  | RuntimeError string
  | CarveException string
  | OtherException string

text \<open>
  A node of the parsed tree (\<^verbatim>\<open>cf_xmlNode\<close>): its tag, whether it is an attribute node,
  its properties and its children in document order.
\<close>

datatype cf_xmlNode =
  XmlNode (tag: string) (is_attribute_node: bool)
          (properties: "(string \<times> string) list") (children: "cf_xmlNode list")

text \<open>
  An indexed polyhedron (\<^verbatim>\<open>xpolyhedron\<close>): the number of vertices and the faces, each face
  the list of its vertex indices. Coordinates play no part in the driver.
\<close>

record xpolyhedron =
  v_size :: nat
  faces :: "nat list list"

definition f_size :: "xpolyhedron \<Rightarrow> nat" where
  "f_size poly = length (faces poly)"

text \<open>A closed 2D contour (\<^verbatim>\<open>polygon2d\<close>), by its vertex indices.\<close>

type_synonym polygon2d = "nat list"

text \<open>
  The object graphs built by the factory. The driver reads \<^verbatim>\<open>nbool()\<close> and hands the
  result of \<^verbatim>\<open>create_carve_mesh()\<close> (or \<^verbatim>\<open>create_clipper_profile()\<close>) to the kernel; the
  geometry itself is opaque here.
\<close>

record 'm xsolid =
  nbool :: size_t
  create_carve_mesh :: 'm

record 'p xshape2d =
  nbool :: size_t
  create_clipper_profile :: 'p

text \<open>
  What \<^verbatim>\<open>carve_boolean::compute\<close> leaves behind: it returns normally, or it throws; in both
  cases the \<^verbatim>\<open>carve_boolean\<close> object holds the lumps accumulated so far, which
  \<^verbatim>\<open>size()\<close> and \<^verbatim>\<open>create_manifold(i)\<close> read afterwards.
\<close>

datatype carve_result =
    Computed "xpolyhedron list"
  | Raised xerror "xpolyhedron list"

text \<open>The file encoders; \<open>STL True\<close> is binary STL, \<open>STL False\<close> is ASCII STL.\<close>

datatype encoder = CSG | AMF | OBJ | OFF | STL bool | SVG | DXF

text \<open>The observable events of a run, in program order.\<close>

datatype event =
    Cout string
  | ConvertCsg string
  | WriteXml string
  | SetSecantTolerance "string option"
  | TimerInit int
  | CarveCompute
  | CheckPolyhedron xpolyhedron
  | Compute2d xpolyhedron
  | TriangulateAdd xpolyhedron
  | WriteMesh encoder "xpolyhedron list" string
  | ClipperCompute
  | OpenscadCsg string
  | WritePolygon polygon2d
  | WriteProfile encoder "polygon2d list" string

type_synonym 'a run = "event list \<times> (xerror + 'a)"

subsection \<open>The collaborators\<close>

text \<open>
  \<^verbatim>\<open>boost_command_line\<close>: \<open>get_xcsg_file\<close> is \<^verbatim>\<open>get<std::string>("xcsg-file")\<close>, \<open>Inl\<close> the
  \<^verbatim>\<open>what()\<close> of the \<^verbatim>\<open>std::exception\<close> it throws. \<^verbatim>\<open>max_bool()\<close> is declared outside this
  file; it is taken at the type the comparison \<^verbatim>\<open>nbool > m_cmd.max_bool()\<close> is made at.
\<close>

record boost_command_line =
  parsed_ok :: bool
  count :: "string \<Rightarrow> nat"
  get_xcsg_file :: "string + string"
  max_bool :: size_t

text \<open>
  Everything else the driver calls. A call whose failure the driver's control flow can
  see (a kernel, the triangulator, an encoder) returns a sum; the others are total.
  \<open>elapsed_boolean\<close> and \<open>elapsed_triangulate\<close> are the printed clock differences.
\<close>

record ('m, 'p) env =
  cmd :: boost_command_line
  Exists :: "string \<Rightarrow> bool"
  GetExt :: "string \<Rightarrow> string"
  SetExt :: "string \<Rightarrow> string \<Rightarrow> string"
  GetFullPath :: "string \<Rightarrow> string"
  GetFullName :: "string \<Rightarrow> string"
  read_xml :: "string \<Rightarrow> cf_xmlNode option option"
  is_solid :: "cf_xmlNode \<Rightarrow> bool"
  is_shape2d :: "cf_xmlNode \<Rightarrow> bool"
  make_solid :: "cf_xmlNode \<Rightarrow> 'm xsolid option"
  make_shape2d :: "cf_xmlNode \<Rightarrow> 'p xshape2d option"
  carve_compute :: "'m \<Rightarrow> carve_result"
  triangulate_kernel :: "xpolyhedron \<Rightarrow> xerror + xpolyhedron"
  write_mesh :: "encoder \<Rightarrow> xpolyhedron list \<Rightarrow> string \<Rightarrow> xerror + string"
  clipper_compute :: "'p \<Rightarrow> xerror + polygon2d list"
  write_polygon :: "polygon2d \<Rightarrow> xerror + unit"
  openscad_path :: "string \<Rightarrow> string"
  write_profile :: "encoder \<Rightarrow> polygon2d list \<Rightarrow> string \<Rightarrow> xerror + string"
  elapsed_boolean :: string
  elapsed_triangulate :: "nat \<Rightarrow> string"

subsection \<open>Sequencing\<close>

text \<open>
  Statement sequencing with exceptions: the events of the first part come first, and an
  exception in the first part skips the second.
\<close>

definition emit :: "event list \<Rightarrow> unit run" where
  "emit evs = (evs, Inr ())"

definition throw :: "xerror \<Rightarrow> 'a run" where
  "throw e = ([], Inl e)"

definition call :: "event \<Rightarrow> xerror + 'a \<Rightarrow> 'a run" where
  "call ev res = ([ev], res)"

definition andthen :: "'a run \<Rightarrow> ('a \<Rightarrow> 'b run) \<Rightarrow> 'b run" where
  "andthen m k =
     (case m of
        (tr, Inl e) \<Rightarrow> (tr, Inl e)
      | (tr, Inr a) \<Rightarrow> (case k a of (tr', r) \<Rightarrow> (tr @ tr', r)))"

subsection \<open>Console text\<close>

definition endl :: string where
  "endl = [CHR 0x0A]"

text \<open>\<^verbatim>\<open>operator<<\<close> on an unsigned integer: its decimal digits.\<close>

fun dec :: "nat \<Rightarrow> string" where
  "dec n = (if n < 10 then [''0123456789'' ! n]
            else dec (n div 10) @ [''0123456789'' ! (n mod 10)])"

declare dec.simps [simp del]

text \<open>\<^verbatim>\<open>DisplayName\<close>, lines 45-48.\<close>

definition DisplayName :: "('m, 'p) env \<Rightarrow> string \<Rightarrow> bool \<Rightarrow> string" where
  "DisplayName env fname show_path =
     (if show_path then GetFullPath env fname else GetFullName env fname)"

text \<open>\<^verbatim>\<open>((nmani==1)? " lump.": " lumps.")\<close>\<close>

definition lumps_text :: "nat \<Rightarrow> string" where
  "lumps_text nmani =
     ''...result model contains '' @ dec nmani @
     (if nmani = 1 then '' lump.'' else '' lumps.'') @ endl"

subsection \<open>The solid path: \<^verbatim>\<open>run_xsolid\<close>, lines 132-222\<close>

text \<open>
  Lines 154-172, the \<^verbatim>\<open>try\<close> block and its handler. The timer is initialised with
  \<^verbatim>\<open>static_cast<int>(nbool)\<close>, then the kernel runs. A \<^verbatim>\<open>carve::exception\<close> is caught and
  printed as a warning (the rethrow on line 171 is commented out); any other exception
  leaves \<^verbatim>\<open>run_xsolid\<close>. The value is the content of the \<^verbatim>\<open>carve_boolean\<close> object
  afterwards.
\<close>

definition try_compute :: "('m, 'p) env \<Rightarrow> 'm xsolid \<Rightarrow> xpolyhedron list run" where
  "try_compute env obj =
     andthen (emit [TimerInit (sint (ucast (xsolid.nbool obj) :: 32 word)), CarveCompute])
       (\<lambda>_. case carve_compute env (create_carve_mesh obj) of
               Computed csg \<Rightarrow>
                 andthen (emit [Cout (''...completed boolean operations in '' @
                                      elapsed_boolean env @ '' [sec] '' @ endl)])
                   (\<lambda>_. ([], Inr csg))
             | Raised (CarveException msg) csg \<Rightarrow>
                 andthen (emit [Cout (''WARNING: (carve error): '' @ msg @ endl)])
                   (\<lambda>_. ([], Inr csg))
             | Raised e csg \<Rightarrow> throw e)"

text \<open>
  Modelled from the spec: \<^verbatim>\<open>xpolyhedron::check_polyhedron\<close> is declared in xpolyhedron.h,
  outside xcsg\_main.cpp. The spec (4.6) has a lump need triangulation
  iff any face has more than 3 vertices; \<open>num_non_tri\<close> is the number of such faces.
\<close>

definition check_polyhedron :: "xpolyhedron \<Rightarrow> nat" where
  "check_polyhedron poly = length (filter (\<lambda>f. 3 < length f) (faces poly))"

text \<open>
  Modelled from the spec: \<^verbatim>\<open>carve_triangulate\<close> is declared in carve\_triangulate.h,
  outside xcsg\_main.cpp. Its state is the combined mesh
  (\<^verbatim>\<open>carve_polyset()\<close>). By the spec (4.6) \<^verbatim>\<open>add\<close> copies the lump's face set unchanged and
  \<^verbatim>\<open>compute2d\<close> runs the external triangulation kernel, accumulates its result and
  returns the triangle count.
\<close>

definition triangulate_add :: "xpolyhedron list \<Rightarrow> xpolyhedron \<Rightarrow> xpolyhedron list" where
  "triangulate_add polyset poly = polyset @ [poly]"

definition compute2d ::
  "('m, 'p) env \<Rightarrow> xpolyhedron list \<Rightarrow> xpolyhedron \<Rightarrow> xerror + (nat \<times> xpolyhedron list)" where
  "compute2d env polyset poly =
     (case triangulate_kernel env poly of
        Inl e \<Rightarrow> Inl e
      | Inr tri \<Rightarrow> Inr (f_size tri, polyset @ [tri]))"

text \<open>
  Lines 180-202, the loop over the lumps. \<open>imani\<close> is the loop index, the list holds
  \<^verbatim>\<open>csg.create_manifold(imani)\<close> for the indices still to come, and \<open>polyset\<close> is the
  state of the \<^verbatim>\<open>carve_triangulate\<close> object. The operands of a \<^verbatim>\<open><<\<close> chain are
  evaluated from left to right: on line 191 the text before the call of \<^verbatim>\<open>compute2d\<close>
  is on the console when the call is made, and the count it returns follows.
\<close>

definition lump_line :: "nat \<Rightarrow> xpolyhedron \<Rightarrow> string" where
  "lump_line imani poly =
     ''...lump '' @ dec (imani + 1) @ '': '' @ dec (v_size poly) @ '' vertices, '' @
     dec (f_size poly) @ '' polygon faces.'' @ endl"

definition completed_lines :: "('m, 'p) env \<Rightarrow> nat \<Rightarrow> nat \<Rightarrow> event list" where
  "completed_lines env imani n =
     [Cout (dec n @ '' triangle faces ''),
      Cout (''in '' @ elapsed_triangulate env imani @ '' [sec]'' @ endl)]"

fun triangulate_lumps ::
  "('m, 'p) env \<Rightarrow> nat \<Rightarrow> xpolyhedron list \<Rightarrow> xpolyhedron list \<Rightarrow> xpolyhedron list run" where
  "triangulate_lumps env imani [] polyset = ([], Inr polyset)"
| "triangulate_lumps env imani (poly # rest) polyset =
     andthen (emit [Cout (lump_line imani poly), CheckPolyhedron poly])
       (\<lambda>_. andthen
          (if 0 < check_polyhedron poly then
             andthen (emit [Cout (''...Triangulating lump ... '' @ endl),
                            Cout ''...Triangulation completed with ''])
               (\<lambda>_. andthen (call (Compute2d poly) (compute2d env polyset poly))
                  (\<lambda>(n, polyset').
                     andthen (emit (completed_lines env imani n))
                       (\<lambda>_. ([], Inr polyset'))))
           else
             andthen (emit [TriangulateAdd poly])
               (\<lambda>_. ([], Inr (triangulate_add polyset poly))))
          (\<lambda>polyset'. triangulate_lumps env (Suc imani) rest polyset'))"

text \<open>
  One export statement of lines 209-215: the label is printed, the encoder is called,
  and when it returns the path it wrote, the path is printed.
\<close>

definition write3d ::
  "('m, 'p) env \<Rightarrow> encoder \<Rightarrow> string \<Rightarrow> xpolyhedron list \<Rightarrow> string \<Rightarrow> bool \<Rightarrow> unit run" where
  "write3d env enc label polyset xcsg_file show_path =
     andthen (emit [Cout label])
    (\<lambda>_. andthen (call (WriteMesh enc polyset xcsg_file)
                        (write_mesh env enc polyset xcsg_file))
    (\<lambda>path. emit [Cout (DisplayName env path show_path @ endl)]))"

text \<open>
  Lines 206-215. \<open>polyset\<close> is \<^verbatim>\<open>triangulate.carve_polyset()\<close>, which the exporter object
  is built from and which \<^verbatim>\<open>amf.write\<close> receives.
\<close>

definition export3d ::
  "('m, 'p) env \<Rightarrow> xpolyhedron list \<Rightarrow> string \<Rightarrow> bool \<Rightarrow> unit run" where
  "export3d env polyset xcsg_file show_path =
     andthen (if 0 < count (cmd env) ''csg''
              then write3d env CSG ''Created OpenSCAD file: '' polyset xcsg_file show_path
              else emit [])
    (\<lambda>_. andthen (if 0 < count (cmd env) ''amf''
              then write3d env AMF ''Created AMF file     : '' polyset xcsg_file show_path
              else emit [])
    (\<lambda>_. andthen (if 0 < count (cmd env) ''obj''
              then write3d env OBJ ''Created OBJ file     : '' polyset xcsg_file show_path
              else emit [])
    (\<lambda>_. andthen (if 0 < count (cmd env) ''off''
              then write3d env OFF ''Created OFF file(s)  : '' polyset xcsg_file show_path
              else emit [])
    (\<lambda>_. if 0 < count (cmd env) ''stl''
              then write3d env (STL True) ''Created STL file     : '' polyset xcsg_file show_path
          else if 0 < count (cmd env) ''astl''
              then write3d env (STL False) ''Created STL file     : '' polyset xcsg_file show_path
          else emit []))))"

text \<open>
  Lines 174-216: what \<^verbatim>\<open>run_xsolid\<close> does after the \<^verbatim>\<open>try\<close> statement, with \<open>csg\<close> the
  content of the \<^verbatim>\<open>carve_boolean\<close> object.
\<close>

definition finish_xsolid ::
  "('m, 'p) env \<Rightarrow> xpolyhedron list \<Rightarrow> string \<Rightarrow> bool \<Rightarrow> unit run" where
  "finish_xsolid env csg xcsg_file show_path =
     andthen (emit [Cout (lumps_text (length csg))])
    (\<lambda>_. andthen (triangulate_lumps env 0 csg [])
    (\<lambda>polyset. andthen (emit [Cout (''...Exporting results '' @ endl)])
    (\<lambda>_. export3d env polyset xcsg_file show_path)))"

text \<open>The budget message of lines 144-146 and 237-239.\<close>

definition max_bool_message :: "size_t \<Rightarrow> string" where
  "max_bool_message m =
     ''Max '' @ dec (unat m) @ '' boolean operations allowed in this configuration.''"

definition nbool_line :: "size_t \<Rightarrow> string" where
  "nbool_line n =
     ''...completed CSG tree: '' @ dec (unat n) @ '' boolean operations to process.'' @ endl"

definition run_xsolid :: "('m, 'p) env \<Rightarrow> cf_xmlNode \<Rightarrow> string \<Rightarrow> bool run" where
  "run_xsolid env node xcsg_file =
     andthen (emit [Cout (''processing solid: '' @ tag node @ endl)])
    (\<lambda>_. case make_solid env node of
            None \<Rightarrow> throw (LogicError ''xcsg tree contains no data. '')
          | Some obj \<Rightarrow>
              andthen (emit [Cout (nbool_line (xsolid.nbool obj))])
             (\<lambda>_. if max_bool (cmd env) < xsolid.nbool obj
                   then throw (LogicError (max_bool_message (max_bool (cmd env))))
                   else
                     andthen (emit (if 0 < xsolid.nbool obj
                                    then [Cout (''...starting boolean operations'' @ endl)]
                                    else []))
                    (\<lambda>_. andthen (try_compute env obj)
                    (\<lambda>csg. andthen (finish_xsolid env csg xcsg_file
                                       (0 < count (cmd env) ''fullpath''))
                    (\<lambda>_. ([], Inr True))))))"

subsection \<open>The 2D path: \<^verbatim>\<open>run_xshape2d\<close>, lines 225-280\<close>

text \<open>Lines 255-258, one \<^verbatim>\<open>write_polygon\<close> per contour of the polyset.\<close>

fun write_polygons :: "('m, 'p) env \<Rightarrow> polygon2d list \<Rightarrow> unit run" where
  "write_polygons env [] = emit []"
| "write_polygons env (poly # rest) =
     andthen (call (WritePolygon poly) (write_polygon env poly))
       (\<lambda>_. write_polygons env rest)"

definition write2d ::
  "('m, 'p) env \<Rightarrow> encoder \<Rightarrow> string \<Rightarrow> polygon2d list \<Rightarrow> string \<Rightarrow> bool \<Rightarrow> unit run" where
  "write2d env enc label polyset xcsg_file show_path =
     andthen (emit [Cout label])
    (\<lambda>_. andthen (call (WriteProfile enc polyset xcsg_file)
                        (write_profile env enc polyset xcsg_file))
    (\<lambda>path. emit [Cout (DisplayName env path show_path @ endl)]))"

text \<open>Lines 252-272.\<close>

definition export2d ::
  "('m, 'p) env \<Rightarrow> polygon2d list \<Rightarrow> string \<Rightarrow> bool \<Rightarrow> unit run" where
  "export2d env polyset xcsg_file show_path =
     andthen (if 0 < count (cmd env) ''csg''
              then andthen (emit [OpenscadCsg xcsg_file])
                  (\<lambda>_. andthen (write_polygons env polyset)
                  (\<lambda>_. emit [Cout (''Created OpenSCAD file: '' @
                                    DisplayName env (openscad_path env xcsg_file) show_path @
                                    endl)]))
              else emit [])
    (\<lambda>_. andthen (if 0 < count (cmd env) ''svg''
              then write2d env SVG ''Created SVG      file: '' polyset xcsg_file show_path
              else emit [])
    (\<lambda>_. if 0 < count (cmd env) ''dxf''
              then write2d env DXF ''Created DXF      file: '' polyset xcsg_file show_path
          else emit []))"

definition run_xshape2d :: "('m, 'p) env \<Rightarrow> cf_xmlNode \<Rightarrow> string \<Rightarrow> bool run" where
  "run_xshape2d env node xcsg_file =
     andthen (emit [Cout (''processing shape2d: '' @ tag node @ endl)])
    (\<lambda>_. case make_shape2d env node of
            None \<Rightarrow> throw (LogicError ''xcsg tree contains no data. '')
          | Some obj \<Rightarrow>
              andthen (emit [Cout (nbool_line (xshape2d.nbool obj))])
             (\<lambda>_. if max_bool (cmd env) < xshape2d.nbool obj
                   then throw (LogicError (max_bool_message (max_bool (cmd env))))
                   else
                     andthen (emit (if 0 < xshape2d.nbool obj
                                    then [Cout (''...starting boolean operations'' @ endl)]
                                    else []))
                    (\<lambda>_. andthen (call ClipperCompute
                                     (clipper_compute env (create_clipper_profile obj)))
                    (\<lambda>polyset. andthen (emit [Cout (lumps_text (length polyset))])
                    (\<lambda>_. andthen (export2d env polyset xcsg_file
                                     (0 < count (cmd env) ''fullpath''))
                    (\<lambda>_. ([], Inr True)))))))"

subsection \<open>The entry point: \<^verbatim>\<open>run\<close>, lines 57-129\<close>

text \<open>\<^verbatim>\<open>std::replace(first, last, old_value, new_value)\<close>.\<close>

primrec std_replace :: "'a \<Rightarrow> 'a \<Rightarrow> 'a list \<Rightarrow> 'a list" where
  "std_replace old new [] = []"
| "std_replace old new (c # cs) = (if c = old then new else c) # std_replace old new cs"

text \<open>
  Lines 107-121, the loop over the children of the root, with the counter \<open>icount\<close> as
  the source keeps it; the value is the counter when the loop is left.
\<close>

fun run_children ::
  "('m, 'p) env \<Rightarrow> nat \<Rightarrow> cf_xmlNode list \<Rightarrow> string \<Rightarrow> nat run" where
  "run_children env icount [] xcsg_file = ([], Inr icount)"
| "run_children env icount (child # rest) xcsg_file =
     andthen
       (if \<not> is_attribute_node child then
          if is_solid env child then
            andthen (run_xsolid env child xcsg_file) (\<lambda>_. ([], Inr (icount + 1)))
          else if is_shape2d env child then
            andthen (run_xshape2d env child xcsg_file) (\<lambda>_. ([], Inr (icount + 1)))
          else ([], Inr icount)
        else ([], Inr icount))
       (\<lambda>icount'. if 0 < icount' then ([], Inr icount')
                   else run_children env icount' rest xcsg_file)"

text \<open>
  Lines 84-94: the \<^verbatim>\<open>std_filename\<close> object \<open>file\<close> and the variable \<open>xcsg_file\<close> after
  the conversion of an OpenSCAD input. A \<^verbatim>\<open>std_filename\<close> is the path it was built from;
  \<open>SetExt\<close> yields it with the new extension.
\<close>

definition converted_file :: "('m, 'p) env \<Rightarrow> string \<Rightarrow> string" where
  "converted_file env xcsg_file =
     (if GetExt env xcsg_file = ''.csg'' then SetExt env xcsg_file ''xcsg'' else xcsg_file)"

definition tree_path :: "('m, 'p) env \<Rightarrow> string \<Rightarrow> string" where
  "tree_path env xcsg_file =
     (if GetExt env xcsg_file = ''.csg''
      then GetFullPath env (converted_file env xcsg_file) else xcsg_file)"

text \<open>
  Lines 76-128, from the existence check on, with \<open>xcsg_file\<close> the path after line 68.
\<close>

definition run_file :: "('m, 'p) env \<Rightarrow> string \<Rightarrow> bool run" where
  "run_file env xcsg_file =
     (if \<not> Exists env xcsg_file
      then throw (RuntimeError (''File does not exist: '' @ xcsg_file))
      else
        andthen (emit (if GetExt env xcsg_file = ''.csg''
                       then [Cout (''Converting from OpenSCAD '' @ xcsg_file @ endl),
                             ConvertCsg xcsg_file, WriteXml (tree_path env xcsg_file)]
                       else []))
       (\<lambda>_. case read_xml env (tree_path env xcsg_file) of
               None \<Rightarrow>
                 andthen (emit [Cout (''error: xcsg input file not found: '' @
                                      tree_path env xcsg_file @ endl)])
                   (\<lambda>_. ([], Inr True))
             | Some tree \<Rightarrow>
                 andthen (emit [Cout (''xcsg processing: '' @
                                      DisplayName env (converted_file env xcsg_file)
                                        (0 < count (cmd env) ''fullpath'') @ endl)])
                (\<lambda>_. case tree of
                        None \<Rightarrow> ([], Inr True)
                      | Some root \<Rightarrow>
                          if ''xcsg'' = tag root then
                            andthen (emit [SetSecantTolerance
                                             (map_of (properties root) ''secant_tolerance'')])
                           (\<lambda>_. andthen (run_children env 0 (children root)
                                            (tree_path env xcsg_file))
                           (\<lambda>_. ([], Inr True)))
                          else ([], Inr True))))"

text \<open>Lines 57-75, up to the normalised path.\<close>

definition run :: "('m, 'p) env \<Rightarrow> bool run" where
  "run env =
     (if \<not> parsed_ok (cmd env) then ([], Inr False)
      else if count (cmd env) ''xcsg-file'' = 0 then
        andthen (emit [Cout (endl @ ''Error, missing required input parameter <xcsg-file>'' @
                             endl)])
          (\<lambda>_. ([], Inr False))
      else
        case get_xcsg_file (cmd env) of
          Inl what \<Rightarrow>
            throw (LogicError (''xcsg  command line processing error: '' @ what @
                               '', please report. '' @ endl))
        | Inr arg \<Rightarrow> run_file env (std_replace (CHR 0x5C) (CHR ''/'') arg))"

subsection \<open>Observations on a run\<close>

text \<open>Calls into the boolean kernels and the triangulation kernel.\<close>

fun kernel_call :: "event \<Rightarrow> bool" where
  "kernel_call CarveCompute = True"
| "kernel_call ClipperCompute = True"
| "kernel_call (Compute2d poly) = True"
| "kernel_call ev = False"

text \<open>
  The encoder an event invokes: the 3D writers, the 2D writers, and the construction of
  the \<^verbatim>\<open>openscad_csg\<close> writer of the 2D path.
\<close>

fun encoder_of :: "event \<Rightarrow> encoder option" where
  "encoder_of (WriteMesh enc polyset path) = Some enc"
| "encoder_of (WriteProfile enc polyset path) = Some enc"
| "encoder_of (OpenscadCsg path) = Some CSG"
| "encoder_of ev = None"

definition encoders :: "event list \<Rightarrow> encoder list" where
  "encoders tr = List.map_filter encoder_of tr"

text \<open>The fixed order of the spec (4.8), restricted to the enabled flags.\<close>

definition enabled3d :: "boost_command_line \<Rightarrow> encoder list" where
  "enabled3d c =
     (if 0 < count c ''csg'' then [CSG] else []) @
     (if 0 < count c ''amf'' then [AMF] else []) @
     (if 0 < count c ''obj'' then [OBJ] else []) @
     (if 0 < count c ''off'' then [OFF] else []) @
     (if 0 < count c ''stl'' then [STL True]
      else if 0 < count c ''astl'' then [STL False] else [])"


text \<open>
  A run invokes encoders in the order \<open>xs\<close>: what it invoked is an initial part of \<open>xs\<close>,
  and all of \<open>xs\<close> when the run returns.
\<close>

definition in_order :: "'a run \<Rightarrow> encoder list \<Rightarrow> bool" where
  "in_order m xs =
     (prefix (encoders (fst m)) xs \<and>
      (case snd m of Inl e \<Rightarrow> True | Inr a \<Rightarrow> encoders (fst m) = xs))"

text \<open>The spec's gate (4.6): some face has more than 3 vertices.\<close>

definition needs_triangulation :: "xpolyhedron \<Rightarrow> bool" where
  "needs_triangulation poly = (\<exists>f \<in> set (faces poly). 3 < length f)"

fun compute2d_arg :: "event \<Rightarrow> xpolyhedron option" where
  "compute2d_arg (Compute2d poly) = Some poly"
| "compute2d_arg ev = None"

fun add_arg :: "event \<Rightarrow> xpolyhedron option" where
  "add_arg (TriangulateAdd poly) = Some poly"
| "add_arg ev = None"

fun mesh_arg :: "event \<Rightarrow> xpolyhedron list option" where
  "mesh_arg (WriteMesh enc polyset path) = Some polyset"
| "mesh_arg ev = None"

definition compute2d_calls :: "event list \<Rightarrow> xpolyhedron list" where
  "compute2d_calls tr = List.map_filter compute2d_arg tr"

definition add_calls :: "event list \<Rightarrow> xpolyhedron list" where
  "add_calls tr = List.map_filter add_arg tr"

definition exported_meshes :: "event list \<Rightarrow> xpolyhedron list list" where
  "exported_meshes tr = List.map_filter mesh_arg tr"

text \<open>What the combined mesh receives for a lump when the triangulator succeeds.\<close>

definition mesh_part :: "('m, 'p) env \<Rightarrow> xpolyhedron \<Rightarrow> xpolyhedron" where
  "mesh_part env poly =
     (if needs_triangulation poly
      then (case triangulate_kernel env poly of Inr tri \<Rightarrow> tri | Inl e \<Rightarrow> poly)
      else poly)"

text \<open>A child the loop of \<^verbatim>\<open>run\<close> acts on, and what it does with it.\<close>

definition actionable :: "('m, 'p) env \<Rightarrow> cf_xmlNode \<Rightarrow> bool" where
  "actionable env child =
     (\<not> is_attribute_node child \<and> (is_solid env child \<or> is_shape2d env child))"

definition process_child :: "('m, 'p) env \<Rightarrow> cf_xmlNode \<Rightarrow> string \<Rightarrow> bool run" where
  "process_child env child xcsg_file =
     (if is_solid env child then run_xsolid env child xcsg_file
      else run_xshape2d env child xcsg_file)"

text \<open>\<open>contains pat s\<close>: the text \<open>pat\<close> occurs in \<open>s\<close>.\<close>

fun contains :: "string \<Rightarrow> string \<Rightarrow> bool" where
  "contains pat [] = (pat = [])"
| "contains pat (c # cs) = (take (length pat) (c # cs) = pat \<or> contains pat cs)"

text \<open>Events that are no kernel call, no triangulation and no export.\<close>

fun quiet :: "event \<Rightarrow> bool" where
  "quiet (Cout s) = True"
| "quiet (ConvertCsg path) = True"
| "quiet (WriteXml path) = True"
| "quiet (SetSecantTolerance v) = True"
| "quiet ev = False"

text \<open>\<^verbatim>\<open>std::replace(xcsg_file.begin(), xcsg_file.end(), '\\', '/')\<close>, line 68.\<close>

definition normalise :: "string \<Rightarrow> string" where
  "normalise arg = std_replace (CHR 0x5C) (CHR ''/'') arg"


text \<open>What \<^verbatim>\<open>run_xsolid\<close> prints before the \<^verbatim>\<open>try\<close> statement, lines 134-152.\<close>

definition solid_prologue :: "cf_xmlNode \<Rightarrow> 'm xsolid \<Rightarrow> event list" where
  "solid_prologue node obj =
     [Cout (''processing solid: '' @ tag node @ endl), Cout (nbool_line (xsolid.nbool obj))] @
     (if 0 < xsolid.nbool obj then [Cout (''...starting boolean operations'' @ endl)] else [])"

text \<open>
  The \<^verbatim>\<open>carve_boolean\<close> object holds \<open>csg\<close> when the \<^verbatim>\<open>try\<close> statement of lines 156-172
  is left normally: the kernel returned, or it threw \<^verbatim>\<open>carve::exception\<close>.
\<close>

definition carve_leaves :: "('m, 'p) env \<Rightarrow> 'm xsolid \<Rightarrow> xpolyhedron list \<Rightarrow> bool" where
  "carve_leaves env obj csg =
     (carve_compute env (create_carve_mesh obj) = Computed csg \<or>
      (\<exists>msg. carve_compute env (create_carve_mesh obj) = Raised (CarveException msg) csg))"

text \<open>
  Collaborator calls that return: the triangulator on every lump of a list that needs it,
  the 3D encoders of a list on a mesh, \<^verbatim>\<open>write_polygon\<close> on every contour of a list.
\<close>

definition returns :: "xerror + 'a \<Rightarrow> bool" where
  "returns r = (case r of Inl e \<Rightarrow> False | Inr a \<Rightarrow> True)"

definition triangulates :: "('m, 'p) env \<Rightarrow> xpolyhedron list \<Rightarrow> bool" where
  "triangulates env csg =
     list_all (\<lambda>q. needs_triangulation q \<longrightarrow> returns (triangulate_kernel env q)) csg"

definition writes3d ::
  "('m, 'p) env \<Rightarrow> xpolyhedron list \<Rightarrow> string \<Rightarrow> encoder list \<Rightarrow> bool" where
  "writes3d env polyset f encs = list_all (\<lambda>enc. returns (write_mesh env enc polyset f)) encs"

definition writes_polygons :: "('m, 'p) env \<Rightarrow> polygon2d list \<Rightarrow> bool" where
  "writes_polygons env contours = list_all (\<lambda>q. returns (write_polygon env q)) contours"

text \<open>
  The export statements of lines 209-215 as one loop over a list of encoders, for
  comparison with \<open>export3d\<close>: each encoder is written with its label, and the first
  failure ends the loop.
\<close>

fun label3d :: "encoder \<Rightarrow> string" where
  "label3d CSG = ''Created OpenSCAD file: ''"
| "label3d AMF = ''Created AMF file     : ''"
| "label3d OBJ = ''Created OBJ file     : ''"
| "label3d OFF = ''Created OFF file(s)  : ''"
| "label3d enc = ''Created STL file     : ''"

fun write_each3d ::
  "('m, 'p) env \<Rightarrow> xpolyhedron list \<Rightarrow> string \<Rightarrow> bool \<Rightarrow> encoder list \<Rightarrow> unit run" where
  "write_each3d env polyset f sp [] = emit []"
| "write_each3d env polyset f sp (enc # rest) =
     andthen (write3d env enc (label3d enc) polyset f sp)
       (\<lambda>_. write_each3d env polyset f sp rest)"






text \<open>What \<^verbatim>\<open>run\<close> emits between the existence check and the loop, lines 84-105.\<close>

definition scene_prologue :: "('m, 'p) env \<Rightarrow> string \<Rightarrow> cf_xmlNode \<Rightarrow> event list" where
  "scene_prologue env xcsg_file root =
     (if GetExt env xcsg_file = ''.csg''
      then [Cout (''Converting from OpenSCAD '' @ xcsg_file @ endl),
            ConvertCsg xcsg_file, WriteXml (tree_path env xcsg_file)]
      else []) @
     [Cout (''xcsg processing: '' @
            DisplayName env (converted_file env xcsg_file) (0 < count (cmd env) ''fullpath'') @
            endl),
      SetSecantTolerance (map_of (properties root) ''secant_tolerance'')]"

subsection \<open>A concrete installation\<close>

text \<open>
  Collaborators simple enough to evaluate, for running the driver on concrete inputs: a
  tetrahedron, a box with quadrilateral faces, a triangulator that fans each face from
  its first vertex, encoders that return the path with their extension, and a factory
  whose object has as many boolean operations as the node has children.
\<close>

definition tetra :: xpolyhedron where
  "tetra = \<lparr>v_size = 4, faces = [[0, 1, 2], [0, 3, 1], [1, 3, 2], [2, 3, 0]]\<rparr>"

definition box :: xpolyhedron where
  "box = \<lparr>v_size = 8,
           faces = [[0, 3, 2, 1], [4, 5, 6, 7], [0, 1, 5, 4],
                    [1, 2, 6, 5], [2, 3, 7, 6], [3, 0, 4, 7]]\<rparr>"

fun fan :: "nat list \<Rightarrow> nat list list" where
  "fan (a # b # c # rest) = [a, b, c] # fan (a # c # rest)"
| "fan face = []"

definition fan_triangulate :: "xpolyhedron \<Rightarrow> xpolyhedron" where
  "fan_triangulate poly = \<lparr>v_size = v_size poly, faces = concat (map fan (faces poly))\<rparr>"

fun extension :: "encoder \<Rightarrow> string" where
  "extension CSG = ''.csg''"
| "extension AMF = ''.amf''"
| "extension OBJ = ''.obj''"
| "extension OFF = ''.off''"
| "extension (STL binary) = ''.stl''"
| "extension SVG = ''.svg''"
| "extension DXF = ''.dxf''"

definition demo_cmd :: "string list \<Rightarrow> size_t \<Rightarrow> string \<Rightarrow> boost_command_line" where
  "demo_cmd flags ceiling arg =
     \<lparr>parsed_ok = True,
      count = (\<lambda>name. if name \<in> set flags then 1 else 0),
      get_xcsg_file = Inr arg,
      max_bool = ceiling\<rparr>"

definition demo_env :: "boost_command_line \<Rightarrow> cf_xmlNode \<Rightarrow> (nat, nat) env" where
  "demo_env c root =
     \<lparr>cmd = c,
      Exists = (\<lambda>path. True),
      GetExt = (\<lambda>path. if suffix ''.csg'' path then ''.csg'' else ''.xcsg''),
      SetExt = (\<lambda>path ext. take (length path - 3) path @ ext),
      GetFullPath = (\<lambda>path. path),
      GetFullName = (\<lambda>path. rev (takeWhile (\<lambda>ch. ch \<noteq> CHR ''/'') (rev path))),
      read_xml = (\<lambda>path. Some (Some root)),
      is_solid = (\<lambda>node. tag node \<in> set [''cube'', ''union3d'', ''void'']),
      is_shape2d = (\<lambda>node. tag node \<in> set [''square'', ''union2d'']),
      make_solid = (\<lambda>node. if tag node = ''void'' then None
                            else Some \<lparr>xsolid.nbool = of_nat (length (children node)),
                                       create_carve_mesh = length (children node)\<rparr>),
      make_shape2d = (\<lambda>node. Some \<lparr>xshape2d.nbool = of_nat (length (children node)),
                                     create_clipper_profile = length (children node)\<rparr>),
      carve_compute = (\<lambda>mesh. Computed [box, tetra]),
      triangulate_kernel = (\<lambda>poly. Inr (fan_triangulate poly)),
      write_mesh = (\<lambda>enc polyset path. Inr (path @ extension enc)),
      clipper_compute = (\<lambda>profile. Inr [[0, 1, 2, 3]]),
      write_polygon = (\<lambda>poly. Inr ()),
      openscad_path = (\<lambda>path. path @ ''.csg''),
      write_profile = (\<lambda>enc polyset path. Inr (path @ extension enc)),
      elapsed_boolean = ''0.001'',
      elapsed_triangulate = (\<lambda>imani. ''0.002'')\<rparr>"

definition cube_node :: cf_xmlNode where
  "cube_node = XmlNode ''cube'' False [] []"

definition square_node :: cf_xmlNode where
  "square_node = XmlNode ''square'' False [] []"

definition union3d_node :: cf_xmlNode where
  "union3d_node = XmlNode ''union3d'' False [] [cube_node, cube_node, cube_node, cube_node, cube_node]"

definition union2d_node :: cf_xmlNode where
  "union2d_node = XmlNode ''union2d'' False [] [square_node, square_node, square_node, square_node, square_node]"

definition comment_node :: cf_xmlNode where
  "comment_node = XmlNode ''comment'' False [] []"

definition attribute_node :: cf_xmlNode where
  "attribute_node = XmlNode ''cube'' True [] []"

definition scene :: "cf_xmlNode list \<Rightarrow> cf_xmlNode" where
  "scene nodes = XmlNode ''xcsg'' False [(''secant_tolerance'', ''0.01'')] nodes"

text \<open>
  The installation with a carve kernel that throws \<^verbatim>\<open>carve::exception\<close> after it has
  accumulated one lump.
\<close>

definition degenerate_env :: "(nat, nat) env" where
  "degenerate_env =
     (demo_env (demo_cmd [''stl''] 10 ''m.xcsg'') (scene [cube_node]))
       \<lparr>carve_compute := (\<lambda>mesh. Raised (CarveException ''degenerate face'') [tetra])\<rparr>"

text \<open>
  The installation with kernels, triangulator and encoders that all throw \<open>e\<close>, on a
  scene of a comment and a square.
\<close>

definition failing_env :: "xerror \<Rightarrow> (nat, nat) env" where
  "failing_env e =
     (demo_env (demo_cmd [''stl'', ''dxf''] 10 ''m.xcsg'') (scene [comment_node, square_node]))
       \<lparr>carve_compute := (\<lambda>mesh. Raised e []),
        triangulate_kernel := (\<lambda>poly. Inl e),
        write_mesh := (\<lambda>enc polyset path. Inl e),
        clipper_compute := (\<lambda>profile. Inl e),
        write_profile := (\<lambda>enc polyset path. Inl e)\<rparr>"

text \<open>
  The installation with a carve kernel that throws \<^verbatim>\<open>carve::exception\<close> while it holds
  the box, and a triangulator that fails.
\<close>

definition stuck_env :: "(nat, nat) env" where
  "stuck_env =
     (demo_env (demo_cmd [''stl''] 10 ''m.xcsg'') (scene [cube_node]))
       \<lparr>carve_compute := (\<lambda>mesh. Raised (CarveException ''degenerate face'') [box]),
        triangulate_kernel := (\<lambda>poly. Inl (OtherException ''triangulator''))\<rparr>"

text \<open>
  The installation with all formats enabled on a scene of one square, where the STL and
  the DXF encoder fail.
\<close>

definition full_disk_env :: "(nat, nat) env" where
  "full_disk_env =
     (demo_env (demo_cmd [''xcsg-file'', ''csg'', ''obj'', ''stl'', ''svg'', ''dxf''] 10 ''m.xcsg'')
        (scene [square_node]))
       \<lparr>write_mesh := (\<lambda>enc polyset path.
           if enc = STL True then Inl (OtherException ''disk full'')
           else Inr (path @ extension enc)),
        write_profile := (\<lambda>enc polyset path.
           if enc = DXF then Inl (OtherException ''disk full'')
           else Inr (path @ extension enc))\<rparr>"





section \<open>Properties\<close>

subsection \<open>Sequencing laws\<close>

lemma andthen_emit: "andthen (emit evs) k = (evs @ fst (k ()), snd (k ()))"
  by (simp add: andthen_def emit_def split: prod.splits)

lemma andthen_throw: "andthen (throw e) k = throw e"
  by (simp add: andthen_def throw_def)

lemma fst_andthen:
  "fst (andthen m k) = (case snd m of Inl e \<Rightarrow> fst m | Inr a \<Rightarrow> fst m @ fst (k a))"
  by (simp add: andthen_def split: prod.splits sum.splits)

lemma snd_andthen:
  "snd (andthen m k) = (case snd m of Inl e \<Rightarrow> Inl e | Inr a \<Rightarrow> snd (k a))"
  by (simp add: andthen_def split: prod.splits sum.splits)

lemma andthen_ret: "andthen ([], Inr a) k = k a"
  by (simp add: andthen_def split: prod.splits)

subsection \<open>The order of the encoders\<close>

lemma encoders_append: "encoders (a @ b) = encoders a @ encoders b"
  by (simp add: encoders_def List.map_filter_def)

lemma encoders_Nil: "encoders [] = []"
  by (simp add: encoders_def List.map_filter_def)

lemma encoders_Cons: "encoders (ev # tr) = (case encoder_of ev of None \<Rightarrow> encoders tr | Some enc \<Rightarrow> enc # encoders tr)"
  by (simp add: encoders_def List.map_filter_def split: option.splits)







lemma in_order_ret: "in_order ([], Inr a) []"
  by (simp add: in_order_def encoders_Nil)










lemma in_order_Nil: "in_order m [] = (encoders (fst m) = [])"
  by (cases "snd m") (auto simp: in_order_def)

lemma check_polyhedron_gate: "(0 < check_polyhedron poly) = needs_triangulation poly"
  by (auto simp: check_polyhedron_def needs_triangulation_def filter_empty_conv)

lemma triangulate_lumps_tri:
  assumes "needs_triangulation poly" "triangulate_kernel env poly = Inr tri"
  shows "triangulate_lumps env i (poly # rest) polyset =
           ([Cout (lump_line i poly), CheckPolyhedron poly,
             Cout (''...Triangulating lump ... '' @ endl),
             Cout ''...Triangulation completed with '', Compute2d poly] @
            completed_lines env i (f_size tri) @
            fst (triangulate_lumps env (Suc i) rest (polyset @ [tri])),
            snd (triangulate_lumps env (Suc i) rest (polyset @ [tri])))"
  using assms
  by (simp add: check_polyhedron_gate compute2d_def andthen_def emit_def call_def
           split: prod.splits sum.splits)

lemma triangulate_lumps_fail:
  assumes "needs_triangulation poly" "triangulate_kernel env poly = Inl e"
  shows "triangulate_lumps env i (poly # rest) polyset =
           ([Cout (lump_line i poly), CheckPolyhedron poly,
             Cout (''...Triangulating lump ... '' @ endl),
             Cout ''...Triangulation completed with '', Compute2d poly], Inl e)"
  using assms
  by (simp add: check_polyhedron_gate compute2d_def andthen_def emit_def call_def)

lemma triangulate_lumps_add:
  assumes "\<not> needs_triangulation poly"
  shows "triangulate_lumps env i (poly # rest) polyset =
           ([Cout (lump_line i poly), CheckPolyhedron poly, TriangulateAdd poly] @
            fst (triangulate_lumps env (Suc i) rest (polyset @ [poly])),
            snd (triangulate_lumps env (Suc i) rest (polyset @ [poly])))"
  using assms
  by (simp add: check_polyhedron_gate triangulate_add_def andthen_def emit_def
           split: prod.splits sum.splits)

declare triangulate_lumps.simps(2) [simp del]

lemma triangulate_lumps_cases:
  obtains (add) "\<not> needs_triangulation poly"
  | (tri) tri where "needs_triangulation poly" "triangulate_kernel env poly = Inr tri"
  | (fail) e where "needs_triangulation poly" "triangulate_kernel env poly = Inl e"
  by (cases "needs_triangulation poly"; cases "triangulate_kernel env poly") auto

lemma in_order_triangulate_lumps: "in_order (triangulate_lumps env i lumps polyset) []"
proof (induction lumps arbitrary: i polyset)
  case Nil
  show ?case by (simp add: in_order_ret)
next
  case (Cons poly rest)
  show ?case
  proof (cases rule: triangulate_lumps_cases [where poly = poly and env = env])
    case add
    with Cons.IH [of "Suc i" "polyset @ [poly]"] show ?thesis
      by (simp add: triangulate_lumps_add in_order_Nil encoders_Cons)
  next
    case (tri t)
    with Cons.IH [of "Suc i" "polyset @ [t]"] show ?thesis
      by (simp add: triangulate_lumps_tri in_order_Nil encoders_Cons encoders_append
                    completed_lines_def encoders_Nil)
  next
    case (fail e)
    then show ?thesis
      by (simp add: triangulate_lumps_fail in_order_Nil encoders_Cons encoders_Nil)
  qed
qed








lemmas demo_defs =
  demo_env_def demo_cmd_def cube_node_def square_node_def union3d_node_def
  union2d_node_def comment_node_def attribute_node_def scene_def


subsection \<open>The budget guard\<close>

lemma run_xsolid_budget:
  assumes "make_solid env node = Some obj" "max_bool (cmd env) < xsolid.nbool obj"
  shows "run_xsolid env node f =
           ([Cout (''processing solid: '' @ tag node @ endl), Cout (nbool_line (xsolid.nbool obj))],
            Inl (LogicError (max_bool_message (max_bool (cmd env)))))"
  using assms by (simp add: run_xsolid_def andthen_emit throw_def)

lemma run_xshape2d_budget:
  assumes "make_shape2d env node = Some obj" "max_bool (cmd env) < xshape2d.nbool obj"
  shows "run_xshape2d env node f =
           ([Cout (''processing shape2d: '' @ tag node @ endl), Cout (nbool_line (xshape2d.nbool obj))],
            Inl (LogicError (max_bool_message (max_bool (cmd env)))))"
  using assms by (simp add: run_xshape2d_def andthen_emit throw_def)

text \<open>
  C2: when the object graph of a node reports more boolean operations than the
  configured ceiling, \<^verbatim>\<open>run_xsolid\<close> (and \<^verbatim>\<open>run_xshape2d\<close>) ends with the
  \<^verbatim>\<open>logic_error\<close> of the budget check, and its events hold no call of the carve kernel,
  of the clipper kernel or of the triangulator.
\<close>

theorem budget_guard_before_kernel:
  "(make_solid env node = Some obj \<and> max_bool (cmd env) < xsolid.nbool obj \<longrightarrow>
      snd (run_xsolid env node f) = Inl (LogicError (max_bool_message (max_bool (cmd env)))) \<and>
      filter kernel_call (fst (run_xsolid env node f)) = []) \<and>
   (make_shape2d env node = Some obj2 \<and> max_bool (cmd env) < xshape2d.nbool obj2 \<longrightarrow>
      snd (run_xshape2d env node f) = Inl (LogicError (max_bool_message (max_bool (cmd env)))) \<and>
      filter kernel_call (fst (run_xshape2d env node f)) = [])"
  by (simp add: run_xsolid_budget run_xshape2d_budget)

theorem budget_guard_before_kernel_witness:
  "make_solid (demo_env (demo_cmd [''stl''] 4 ''m.xcsg'') (scene [union3d_node])) union3d_node =
     Some \<lparr>xsolid.nbool = 5, create_carve_mesh = 5\<rparr> \<and>
   make_shape2d (demo_env (demo_cmd [''stl''] 4 ''m.xcsg'') (scene [union3d_node])) union2d_node =
     Some \<lparr>xshape2d.nbool = 5, create_clipper_profile = 5\<rparr> \<and>
   (4 :: size_t) < 5 \<and>
   snd (run_xsolid (demo_env (demo_cmd [''stl''] 4 ''m.xcsg'') (scene [union3d_node]))
          union3d_node ''m.xcsg'') =
     Inl (LogicError ''Max 4 boolean operations allowed in this configuration.'') \<and>
   filter kernel_call
     (fst (run_xsolid (demo_env (demo_cmd [''stl''] 4 ''m.xcsg'') (scene [union3d_node]))
          union3d_node ''m.xcsg'')) = [] \<and>
   snd (run_xshape2d (demo_env (demo_cmd [''stl''] 4 ''m.xcsg'') (scene [union3d_node]))
          union2d_node ''m.xcsg'') =
     Inl (LogicError ''Max 4 boolean operations allowed in this configuration.'') \<and>
   filter kernel_call
     (fst (run_xshape2d (demo_env (demo_cmd [''stl''] 4 ''m.xcsg'') (scene [union3d_node]))
          union2d_node ''m.xcsg'')) = []"
proof -
  let ?E = "demo_env (demo_cmd [''stl''] 4 ''m.xcsg'') (scene [union3d_node])"
  have s: "make_solid ?E union3d_node = Some \<lparr>xsolid.nbool = 5, create_carve_mesh = 5\<rparr>"
    by (simp add: demo_defs)
  have p: "make_shape2d ?E union2d_node = Some \<lparr>xshape2d.nbool = 5, create_clipper_profile = 5\<rparr>"
    by (simp add: demo_defs)
  have m: "max_bool (cmd ?E) = 4"
    by (simp add: demo_defs)
  have msg: "max_bool_message 4 = ''Max 4 boolean operations allowed in this configuration.''"
    by code_simp
  from budget_guard_before_kernel [of ?E union3d_node "\<lparr>xsolid.nbool = 5, create_carve_mesh = 5\<rparr>"
      "''m.xcsg''"] s m msg
  have a: "snd (run_xsolid ?E union3d_node ''m.xcsg'') =
             Inl (LogicError ''Max 4 boolean operations allowed in this configuration.'') \<and>
           filter kernel_call (fst (run_xsolid ?E union3d_node ''m.xcsg'')) = []"
    by simp
  from budget_guard_before_kernel [of ?E union2d_node _ "''m.xcsg''"
      "\<lparr>xshape2d.nbool = 5, create_clipper_profile = 5\<rparr>"] p m msg
  have b: "snd (run_xshape2d ?E union2d_node ''m.xcsg'') =
             Inl (LogicError ''Max 4 boolean operations allowed in this configuration.'') \<and>
           filter kernel_call (fst (run_xshape2d ?E union2d_node ''m.xcsg'')) = []"
    by simp
  from s p a b show ?thesis by simp
qed

subsection \<open>The budget message\<close>

lemma contains_here: "contains pat (pat @ rest)"
proof (cases "pat @ rest")
  case Nil
  then show ?thesis by simp
next
  case (Cons a list)
  have "take (length pat) (pat @ rest) = pat" by simp
  with Cons have "take (length pat) (a # list) = pat" by simp
  with Cons show ?thesis by simp
qed

lemma contains_later: "contains pat s \<Longrightarrow> contains pat (pre @ s)"
  by (induction pre) auto

lemma contains_mid: "contains pat (pre @ pat @ rest)"
  by (rule contains_later) (rule contains_here)

text \<open>
  C6, as amended: when the budget is exceeded, the \<^verbatim>\<open>logic_error\<close> that is thrown
  carries the message built from the configured ceiling, which names the ceiling; the
  operation count is in the progress line printed to the console just before the check,
  the last event of the run.
\<close>

theorem budget_error_names_ceiling_only:
  "(make_solid env node = Some obj \<and> max_bool (cmd env) < xsolid.nbool obj \<longrightarrow>
      snd (run_xsolid env node f) = Inl (LogicError (max_bool_message (max_bool (cmd env)))) \<and>
      last (fst (run_xsolid env node f)) = Cout (nbool_line (xsolid.nbool obj))) \<and>
   (make_shape2d env node = Some obj2 \<and> max_bool (cmd env) < xshape2d.nbool obj2 \<longrightarrow>
      snd (run_xshape2d env node f) = Inl (LogicError (max_bool_message (max_bool (cmd env)))) \<and>
      last (fst (run_xshape2d env node f)) = Cout (nbool_line (xshape2d.nbool obj2))) \<and>
   contains (dec (unat (max_bool (cmd env)))) (max_bool_message (max_bool (cmd env))) \<and>
   contains (dec (unat n)) (nbool_line n)"
proof -
  have "contains (dec (unat (max_bool (cmd env)))) (max_bool_message (max_bool (cmd env)))"
    unfolding max_bool_message_def by (rule contains_mid)
  moreover have "contains (dec (unat n)) (nbool_line n)"
    unfolding nbool_line_def by (rule contains_mid)
  ultimately show ?thesis
    by (simp add: run_xsolid_budget run_xshape2d_budget)
qed

text \<open>
  C6, as stated, fails: with 5 operations against a ceiling of 3 the error reads
  ``Max 3 boolean operations allowed in this configuration.'', in which the count 5 does
  not occur.
\<close>

theorem budget_error_omits_count:
  "make_solid (demo_env (demo_cmd [''stl''] 3 ''m.xcsg'') (scene [union3d_node])) union3d_node =
     Some \<lparr>xsolid.nbool = 5, create_carve_mesh = 5\<rparr> \<and>
   snd (run_xsolid (demo_env (demo_cmd [''stl''] 3 ''m.xcsg'') (scene [union3d_node]))
          union3d_node ''m.xcsg'') =
     Inl (LogicError ''Max 3 boolean operations allowed in this configuration.'') \<and>
   \<not> contains (dec 5) ''Max 3 boolean operations allowed in this configuration.''"
  by code_simp

theorem budget_error_names_ceiling_only_witness:
  "make_shape2d (demo_env (demo_cmd [''svg''] 3 ''m.xcsg'') (scene [union2d_node])) union2d_node =
     Some \<lparr>xshape2d.nbool = 5, create_clipper_profile = 5\<rparr> \<and>
   snd (run_xshape2d (demo_env (demo_cmd [''svg''] 3 ''m.xcsg'') (scene [union2d_node]))
          union2d_node ''m.xcsg'') =
     Inl (LogicError ''Max 3 boolean operations allowed in this configuration.'') \<and>
   last (fst (run_xshape2d (demo_env (demo_cmd [''svg''] 3 ''m.xcsg'') (scene [union2d_node]))
          union2d_node ''m.xcsg'')) =
     Cout ''...completed CSG tree: 5 boolean operations to process.\<newline>''"
proof -
  let ?E = "demo_env (demo_cmd [''svg''] 3 ''m.xcsg'') (scene [union2d_node])"
  have p: "make_shape2d ?E union2d_node = Some \<lparr>xshape2d.nbool = 5, create_clipper_profile = 5\<rparr>"
    by (simp add: demo_defs)
  have m: "max_bool (cmd ?E) = 3"
    by (simp add: demo_defs)
  have msg: "max_bool_message 3 = ''Max 3 boolean operations allowed in this configuration.''"
    by code_simp
  have line: "nbool_line 5 = ''...completed CSG tree: 5 boolean operations to process.\<newline>''"
    by code_simp
  from budget_error_names_ceiling_only [of ?E union2d_node _ "''m.xcsg''"
      "\<lparr>xshape2d.nbool = 5, create_clipper_profile = 5\<rparr>"] p m msg line
  have "snd (run_xshape2d ?E union2d_node ''m.xcsg'') =
          Inl (LogicError ''Max 3 boolean operations allowed in this configuration.'') \<and>
        last (fst (run_xshape2d ?E union2d_node ''m.xcsg'')) =
          Cout ''...completed CSG tree: 5 boolean operations to process.\<newline>''"
    by simp
  with p show ?thesis by simp
qed

subsection \<open>The triangulation gate\<close>

lemma compute2d_calls_Nil: "compute2d_calls [] = []"
  by (simp add: compute2d_calls_def List.map_filter_def)

lemma compute2d_calls_Cons:
  "compute2d_calls (ev # tr) =
     (case compute2d_arg ev of None \<Rightarrow> compute2d_calls tr | Some p \<Rightarrow> p # compute2d_calls tr)"
  by (simp add: compute2d_calls_def List.map_filter_def split: option.splits)

lemma compute2d_calls_append: "compute2d_calls (a @ b) = compute2d_calls a @ compute2d_calls b"
  by (simp add: compute2d_calls_def List.map_filter_def)

lemma add_calls_Nil: "add_calls [] = []"
  by (simp add: add_calls_def List.map_filter_def)

lemma add_calls_Cons:
  "add_calls (ev # tr) =
     (case add_arg ev of None \<Rightarrow> add_calls tr | Some p \<Rightarrow> p # add_calls tr)"
  by (simp add: add_calls_def List.map_filter_def split: option.splits)

lemma add_calls_append: "add_calls (a @ b) = add_calls a @ add_calls b"
  by (simp add: add_calls_def List.map_filter_def)

lemma exported_meshes_Nil: "exported_meshes [] = []"
  by (simp add: exported_meshes_def List.map_filter_def)

lemma exported_meshes_Cons:
  "exported_meshes (ev # tr) =
     (case mesh_arg ev of None \<Rightarrow> exported_meshes tr | Some m \<Rightarrow> m # exported_meshes tr)"
  by (simp add: exported_meshes_def List.map_filter_def split: option.splits)

lemma exported_meshes_append: "exported_meshes (a @ b) = exported_meshes a @ exported_meshes b"
  by (simp add: exported_meshes_def List.map_filter_def)

lemmas calls_simps =
  compute2d_calls_Nil compute2d_calls_Cons compute2d_calls_append
  add_calls_Nil add_calls_Cons add_calls_append
  exported_meshes_Nil exported_meshes_Cons exported_meshes_append completed_lines_def

lemma triangulate_lumps_calls_prefix:
  "prefix (compute2d_calls (fst (triangulate_lumps env i lumps polyset)))
          (filter needs_triangulation lumps) \<and>
   prefix (add_calls (fst (triangulate_lumps env i lumps polyset)))
          (filter (\<lambda>p. \<not> needs_triangulation p) lumps)"
proof (induction lumps arbitrary: i polyset)
  case Nil
  show ?case by (simp add: calls_simps)
next
  case (Cons poly rest)
  show ?case
  proof (cases rule: triangulate_lumps_cases [where poly = poly and env = env])
    case add
    with Cons.IH [of "Suc i" "polyset @ [poly]"] show ?thesis
      by (simp add: triangulate_lumps_add calls_simps)
  next
    case (tri t)
    with Cons.IH [of "Suc i" "polyset @ [t]"] show ?thesis
      by (simp add: triangulate_lumps_tri calls_simps)
  next
    case (fail e)
    then show ?thesis
      by (simp add: triangulate_lumps_fail calls_simps)
  qed
qed

lemma triangulate_lumps_returns:
  "snd (triangulate_lumps env i lumps polyset) = Inr mesh \<Longrightarrow>
   compute2d_calls (fst (triangulate_lumps env i lumps polyset)) =
     filter needs_triangulation lumps \<and>
   add_calls (fst (triangulate_lumps env i lumps polyset)) =
     filter (\<lambda>p. \<not> needs_triangulation p) lumps \<and>
   mesh = polyset @ map (mesh_part env) lumps"
proof (induction lumps arbitrary: i polyset)
  case Nil
  then show ?case by (simp add: calls_simps)
next
  case (Cons poly rest)
  show ?case
  proof (cases rule: triangulate_lumps_cases [where poly = poly and env = env])
    case add
    with Cons.prems have "snd (triangulate_lumps env (Suc i) rest (polyset @ [poly])) = Inr mesh"
      by (simp add: triangulate_lumps_add)
    from Cons.IH [OF this] add show ?thesis
      by (simp add: triangulate_lumps_add calls_simps mesh_part_def)
  next
    case (tri t)
    with Cons.prems have "snd (triangulate_lumps env (Suc i) rest (polyset @ [t])) = Inr mesh"
      by (simp add: triangulate_lumps_tri)
    from Cons.IH [OF this] tri show ?thesis
      by (simp add: triangulate_lumps_tri calls_simps mesh_part_def)
  next
    case (fail e)
    with Cons.prems show ?thesis
      by (simp add: triangulate_lumps_fail)
  qed
qed

lemma exported_meshes_triangulate_lumps:
  "exported_meshes (fst (triangulate_lumps env i lumps polyset)) = []"
proof (induction lumps arbitrary: i polyset)
  case Nil
  show ?case by (simp add: calls_simps)
next
  case (Cons poly rest)
  show ?case
  proof (cases rule: triangulate_lumps_cases [where poly = poly and env = env])
    case add
    with Cons.IH [of "Suc i" "polyset @ [poly]"] show ?thesis
      by (simp add: triangulate_lumps_add calls_simps)
  next
    case (tri t)
    with Cons.IH [of "Suc i" "polyset @ [t]"] show ?thesis
      by (simp add: triangulate_lumps_tri calls_simps)
  next
    case (fail e)
    then show ?thesis
      by (simp add: triangulate_lumps_fail calls_simps)
  qed
qed

lemma events_andthen:
  "list_all P (fst m) \<Longrightarrow> (\<And>a. list_all P (fst (k a))) \<Longrightarrow> list_all P (fst (andthen m k))"
  by (simp add: fst_andthen split: sum.splits)

lemma events_emit: "list_all P evs \<Longrightarrow> list_all P (fst (emit evs))"
  by (simp add: emit_def)

lemma events_write3d:
  "P (WriteMesh enc polyset f) \<Longrightarrow> (\<And>s. P (Cout s)) \<Longrightarrow>
   list_all P (fst (write3d env enc label polyset f sp))"
  by (simp add: write3d_def fst_andthen call_def emit_def split: sum.splits)

lemma events_export3d:
  assumes "\<And>enc. P (WriteMesh enc polyset f)" "\<And>s. P (Cout s)"
  shows "list_all P (fst (export3d env polyset f sp))"
  unfolding export3d_def
  by (intro events_andthen) (simp_all add: events_write3d assms events_emit)

lemma list_all_exported_meshes:
  "list_all (\<lambda>ev. mesh_arg ev = None \<or> mesh_arg ev = Some mesh) tr \<Longrightarrow>
   list_all (\<lambda>m. m = mesh) (exported_meshes tr)"
  by (induction tr) (auto simp: calls_simps split: option.splits)

lemma exported_meshes_export3d:
  "list_all (\<lambda>m. m = polyset) (exported_meshes (fst (export3d env polyset f sp)))"
  by (rule list_all_exported_meshes) (rule events_export3d, simp_all)

lemma finish_xsolid_returns:
  assumes "snd (triangulate_lumps env 0 csg []) = Inr polyset"
  shows "finish_xsolid env csg f sp =
           (Cout (lumps_text (length csg)) # fst (triangulate_lumps env 0 csg []) @
            Cout (''...Exporting results '' @ endl) # fst (export3d env polyset f sp),
            snd (export3d env polyset f sp))"
  using assms
  by (cases "triangulate_lumps env 0 csg []"; cases "export3d env polyset f sp")
     (simp add: finish_xsolid_def andthen_def emit_def)

lemma finish_xsolid_fails:
  assumes "snd (triangulate_lumps env 0 csg []) = Inl e"
  shows "finish_xsolid env csg f sp =
           (Cout (lumps_text (length csg)) # fst (triangulate_lumps env 0 csg []), Inl e)"
  using assms
  by (cases "triangulate_lumps env 0 csg []")
     (simp add: finish_xsolid_def andthen_def emit_def)

text \<open>
  C5: the gate \<^verbatim>\<open>num_non_tri > 0\<close> is the spec's ``some face has more than 3
  vertices''. The triangulation kernel is called for the lumps that need triangulation,
  in order, and for no other; the other lumps are added unchanged. When the loop
  returns, the combined mesh holds one entry per lump (the kernel's result or the lump
  itself), and every encoder call of the export receives that one mesh.
\<close>

theorem triangulation_gate:
  "(0 < check_polyhedron poly) = needs_triangulation poly \<and>
   prefix (compute2d_calls (fst (triangulate_lumps env 0 csg [])))
          (filter needs_triangulation csg) \<and>
   prefix (add_calls (fst (triangulate_lumps env 0 csg [])))
          (filter (\<lambda>p. \<not> needs_triangulation p) csg) \<and>
   (snd (triangulate_lumps env 0 csg []) = Inr mesh \<longrightarrow>
      compute2d_calls (fst (triangulate_lumps env 0 csg [])) = filter needs_triangulation csg \<and>
      add_calls (fst (triangulate_lumps env 0 csg [])) =
        filter (\<lambda>p. \<not> needs_triangulation p) csg \<and>
      mesh = map (mesh_part env) csg \<and>
      list_all (\<lambda>m. m = mesh) (exported_meshes (fst (finish_xsolid env csg f sp))))"
proof -
  have "list_all (\<lambda>m. m = mesh) (exported_meshes (fst (finish_xsolid env csg f sp)))"
    if "snd (triangulate_lumps env 0 csg []) = Inr mesh"
    using that exported_meshes_export3d [of mesh env f sp]
    by (simp add: finish_xsolid_returns calls_simps exported_meshes_triangulate_lumps)
  moreover have "compute2d_calls (fst (triangulate_lumps env 0 csg [])) =
        filter needs_triangulation csg \<and>
      add_calls (fst (triangulate_lumps env 0 csg [])) =
        filter (\<lambda>p. \<not> needs_triangulation p) csg \<and>
      mesh = map (mesh_part env) csg"
    if "snd (triangulate_lumps env 0 csg []) = Inr mesh"
    using triangulate_lumps_returns [OF that] by simp
  ultimately show ?thesis
    using triangulate_lumps_calls_prefix [of env 0 csg "[]"]
    by (simp add: check_polyhedron_gate)
qed

theorem triangulation_gate_witness:
  "snd (triangulate_lumps (demo_env (demo_cmd [''obj'', ''stl''] 10 ''m.xcsg'') (scene [cube_node]))
         0 [box, tetra] []) = Inr [fan_triangulate box, tetra] \<and>
   compute2d_calls (fst (triangulate_lumps
         (demo_env (demo_cmd [''obj'', ''stl''] 10 ''m.xcsg'') (scene [cube_node]))
         0 [box, tetra] [])) = [box] \<and>
   add_calls (fst (triangulate_lumps
         (demo_env (demo_cmd [''obj'', ''stl''] 10 ''m.xcsg'') (scene [cube_node]))
         0 [box, tetra] [])) = [tetra] \<and>
   exported_meshes (fst (finish_xsolid
         (demo_env (demo_cmd [''obj'', ''stl''] 10 ''m.xcsg'') (scene [cube_node]))
         [box, tetra] ''m.xcsg'' False)) =
     [[fan_triangulate box, tetra], [fan_triangulate box, tetra]] \<and>
   list_all (\<lambda>m. m = [fan_triangulate box, tetra])
     (exported_meshes (fst (finish_xsolid
         (demo_env (demo_cmd [''obj'', ''stl''] 10 ''m.xcsg'') (scene [cube_node]))
         [box, tetra] ''m.xcsg'' False)))"
proof -
  let ?E = "demo_env (demo_cmd [''obj'', ''stl''] 10 ''m.xcsg'') (scene [cube_node])"
  have r: "snd (triangulate_lumps ?E 0 [box, tetra] []) = Inr [fan_triangulate box, tetra]"
    by code_simp
  have nb: "needs_triangulation box" and nt: "\<not> needs_triangulation tetra"
    by code_simp+
  have ex: "exported_meshes (fst (finish_xsolid ?E [box, tetra] ''m.xcsg'' False)) =
     [[fan_triangulate box, tetra], [fan_triangulate box, tetra]]"
    by code_simp
  from triangulation_gate [of box ?E "[box, tetra]" "[fan_triangulate box, tetra]" "''m.xcsg''" False]
    r nb nt ex
  show ?thesis by simp
qed

subsection \<open>The carve exception\<close>

lemma try_compute_carve:
  assumes "carve_compute env (create_carve_mesh obj) = Raised (CarveException msg) csg"
  shows "try_compute env obj =
           ([TimerInit (sint (ucast (xsolid.nbool obj) :: 32 word)), CarveCompute,
             Cout (''WARNING: (carve error): '' @ msg @ endl)], Inr csg)"
  using assms by (simp add: try_compute_def andthen_emit)

lemma try_compute_completed:
  assumes "carve_compute env (create_carve_mesh obj) = Computed csg"
  shows "try_compute env obj =
           ([TimerInit (sint (ucast (xsolid.nbool obj) :: 32 word)), CarveCompute,
             Cout (''...completed boolean operations in '' @ elapsed_boolean env @
                   '' [sec] '' @ endl)], Inr csg)"
  using assms by (simp add: try_compute_def andthen_emit)

lemma try_compute_other:
  assumes "carve_compute env (create_carve_mesh obj) = Raised e csg"
    and "\<And>msg. e \<noteq> CarveException msg"
  shows "try_compute env obj =
           ([TimerInit (sint (ucast (xsolid.nbool obj) :: 32 word)), CarveCompute], Inl e)"
  using assms by (cases e) (auto simp: try_compute_def andthen_emit throw_def)

lemma run_xsolid_within_budget:
  assumes "make_solid env node = Some obj" "\<not> max_bool (cmd env) < xsolid.nbool obj"
  shows "run_xsolid env node f =
           andthen (emit (solid_prologue node obj))
             (\<lambda>_. andthen (try_compute env obj)
             (\<lambda>csg. andthen (finish_xsolid env csg f (0 < count (cmd env) ''fullpath''))
             (\<lambda>_. ([], Inr True))))"
  using assms
  by (simp add: run_xsolid_def solid_prologue_def andthen_emit)

subsection \<open>The loop over the children of the root\<close>

lemma run_children_skip:
  "\<not> actionable env c \<Longrightarrow> run_children env 0 (c # rest) f = run_children env 0 rest f"
  by (auto simp: actionable_def andthen_ret)

lemma andthen_count:
  "andthen (andthen m (\<lambda>_. ([], Inr (Suc 0))))
     (\<lambda>icount'. if 0 < icount' then ([], Inr icount') else k icount') =
   andthen m (\<lambda>_. ([], Inr (Suc 0)))"
  by (cases m) (simp add: andthen_def split: sum.splits)

lemma run_children_hit:
  "actionable env c \<Longrightarrow>
   run_children env 0 (c # rest) f =
     andthen (if is_solid env c then run_xsolid env c f else run_xshape2d env c f)
       (\<lambda>_. ([], Inr 1))"
  by (auto simp: actionable_def andthen_count)

declare run_children.simps(2) [simp del]

lemma run_children_none:
  "\<forall>x \<in> set cs. \<not> actionable env x \<Longrightarrow> run_children env 0 cs f = ([], Inr 0)"
  by (induction cs) (simp_all add: run_children_skip)

lemma run_children_first:
  "\<forall>x \<in> set pre. \<not> actionable env x \<Longrightarrow> actionable env c \<Longrightarrow>
   run_children env 0 (pre @ c # post) f =
     andthen (if is_solid env c then run_xsolid env c f else run_xshape2d env c f)
       (\<lambda>_. ([], Inr 1))"
  by (induction pre) (simp_all add: run_children_skip run_children_hit)



subsection \<open>Runs without a model\<close>

lemma events_ret: "list_all P (fst ([], r))"
  by simp


lemma run_file_unreadable:
  assumes "Exists env p" "read_xml env (tree_path env p) = None"
  shows "snd (run_file env p) = Inr True \<and> list_all quiet (fst (run_file env p))"
  using assms by (simp add: run_file_def andthen_emit)

lemma run_file_no_root:
  assumes "Exists env p" "read_xml env (tree_path env p) = Some None"
  shows "snd (run_file env p) = Inr True \<and> list_all quiet (fst (run_file env p))"
  using assms by (simp add: run_file_def andthen_emit)

lemma run_file_other_root:
  assumes "Exists env p" "read_xml env (tree_path env p) = Some (Some root)"
    "tag root \<noteq> ''xcsg''"
  shows "snd (run_file env p) = Inr True \<and> list_all quiet (fst (run_file env p))"
  using assms by (auto simp: run_file_def andthen_emit)

lemma quiet_scene_prologue: "list_all quiet (scene_prologue env p root)"
  by (simp add: scene_prologue_def)

lemma run_file_scene:
  assumes "Exists env p" "read_xml env (tree_path env p) = Some (Some root)"
    "tag root = ''xcsg''"
  shows "run_file env p =
           (scene_prologue env p root @
              fst (run_children env 0 (children root) (tree_path env p)),
            case snd (run_children env 0 (children root) (tree_path env p)) of
              Inl e \<Rightarrow> Inl e | Inr n \<Rightarrow> Inr True)"
  using assms
  by (cases "run_children env 0 (children root) (tree_path env p)")
     (auto simp: run_file_def scene_prologue_def andthen_def emit_def split: sum.splits)

lemma run_file_no_model:
  assumes "Exists env p" "read_xml env (tree_path env p) = Some (Some root)"
    "\<forall>c \<in> set (children root). \<not> actionable env c"
  shows "snd (run_file env p) = Inr True \<and> list_all quiet (fst (run_file env p))"
proof (cases "tag root = ''xcsg''")
  case True
  from run_children_none [OF assms(3)]
  show ?thesis
    by (simp add: run_file_scene [OF assms(1,2) True] quiet_scene_prologue)
next
  case False
  with assms show ?thesis by (simp add: run_file_other_root)
qed

lemma run_named:
  assumes "parsed_ok (cmd env)" "0 < count (cmd env) ''xcsg-file''"
    "get_xcsg_file (cmd env) = Inr arg"
  shows "run env = run_file env (normalise arg)"
  using assms by (simp add: run_def normalise_def)

text \<open>
  C9: when the command line parsed, names an input file and the file exists, \<^verbatim>\<open>run\<close>
  returns true if the tree cannot be read, has no root, has a root not tagged
  \<^verbatim>\<open>xcsg\<close>, or has no classifiable child; it emits console lines (and the conversion
  of an OpenSCAD input) only.
\<close>

theorem run_true_without_model:
  assumes "parsed_ok (cmd env)" and "0 < count (cmd env) ''xcsg-file''"
    and "get_xcsg_file (cmd env) = Inr arg" and "Exists env (normalise arg)"
    and "read_xml env (tree_path env (normalise arg)) = None \<or>
         read_xml env (tree_path env (normalise arg)) = Some None \<or>
         (\<exists>root. read_xml env (tree_path env (normalise arg)) = Some (Some root) \<and>
            (tag root \<noteq> ''xcsg'' \<or> (\<forall>c \<in> set (children root). \<not> actionable env c)))"
  shows "snd (run env) = Inr True \<and> list_all quiet (fst (run env))"
  using assms(4,5)
  unfolding run_named [OF assms(1,2,3)]
  by (auto simp: run_file_unreadable run_file_no_root run_file_other_root run_file_no_model)

theorem run_true_without_model_witness:
  "Exists (demo_env (demo_cmd [''xcsg-file'', ''stl''] 10 ''m.xcsg'')
             (scene [comment_node, attribute_node])) (normalise ''m.xcsg'') \<and>
   read_xml (demo_env (demo_cmd [''xcsg-file'', ''stl''] 10 ''m.xcsg'')
             (scene [comment_node, attribute_node])) ''m.xcsg'' =
     Some (Some (scene [comment_node, attribute_node])) \<and>
   snd (run (demo_env (demo_cmd [''xcsg-file'', ''stl''] 10 ''m.xcsg'')
             (scene [comment_node, attribute_node]))) = Inr True \<and>
   list_all quiet (fst (run (demo_env (demo_cmd [''xcsg-file'', ''stl''] 10 ''m.xcsg'')
             (scene [comment_node, attribute_node]))))"
proof -
  let ?E = "demo_env (demo_cmd [''xcsg-file'', ''stl''] 10 ''m.xcsg'')
              (scene [comment_node, attribute_node])"
  have p: "parsed_ok (cmd ?E)" and n: "0 < count (cmd ?E) ''xcsg-file''"
    and g: "get_xcsg_file (cmd ?E) = Inr ''m.xcsg''" and x: "Exists ?E (normalise ''m.xcsg'')"
    by (simp_all add: demo_defs)
  have t: "tree_path ?E (normalise ''m.xcsg'') = ''m.xcsg''"
    by code_simp
  have r: "read_xml ?E ''m.xcsg'' = Some (Some (scene [comment_node, attribute_node]))"
    by (simp add: demo_defs)
  have a: "\<forall>c \<in> set (children (scene [comment_node, attribute_node])). \<not> actionable ?E c"
    by (simp add: actionable_def demo_defs)
  have "read_xml ?E (tree_path ?E (normalise ''m.xcsg'')) = None \<or>
        read_xml ?E (tree_path ?E (normalise ''m.xcsg'')) = Some None \<or>
        (\<exists>root. read_xml ?E (tree_path ?E (normalise ''m.xcsg'')) = Some (Some root) \<and>
           (tag root \<noteq> ''xcsg'' \<or> (\<forall>c \<in> set (children root). \<not> actionable ?E c)))"
    using r a unfolding t by blast
  from run_true_without_model [OF p n g x this] x r show ?thesis by simp
qed

subsection \<open>A root without a classifiable child\<close>

lemma run_xsolid_no_object:
  "make_solid env node = None \<Longrightarrow>
   run_xsolid env node f =
     ([Cout (''processing solid: '' @ tag node @ endl)],
      Inl (LogicError ''xcsg tree contains no data. ''))"
  by (simp add: run_xsolid_def andthen_emit throw_def)

lemma run_xshape2d_no_object:
  "make_shape2d env node = None \<Longrightarrow>
   run_xshape2d env node f =
     ([Cout (''processing shape2d: '' @ tag node @ endl)],
      Inl (LogicError ''xcsg tree contains no data. ''))"
  by (simp add: run_xshape2d_def andthen_emit throw_def)

text \<open>
  C7, as amended: a scene whose root has no classifiable child is not reported: \<^verbatim>\<open>run\<close>
  emits its prologue and returns true. The build failure ``xcsg tree contains no data.''
  is thrown by \<^verbatim>\<open>run_xsolid\<close> and \<^verbatim>\<open>run_xshape2d\<close> when the factory yields no object for
  the node they are given, and ends their processing after the first console line.
\<close>

theorem no_classifiable_child_is_silent:
  "(Exists env p \<and> read_xml env (tree_path env p) = Some (Some root) \<and>
    tag root = ''xcsg'' \<and> (\<forall>c \<in> set (children root). \<not> actionable env c) \<longrightarrow>
      run_file env p = (scene_prologue env p root, Inr True)) \<and>
   (make_solid env node = None \<longrightarrow>
      run_xsolid env node f =
        ([Cout (''processing solid: '' @ tag node @ endl)],
         Inl (LogicError ''xcsg tree contains no data. ''))) \<and>
   (make_shape2d env node = None \<longrightarrow>
      run_xshape2d env node f =
        ([Cout (''processing shape2d: '' @ tag node @ endl)],
         Inl (LogicError ''xcsg tree contains no data. '')))"
  by (simp add: run_file_scene run_children_none run_xsolid_no_object run_xshape2d_no_object)

text \<open>
  C7, as stated, fails: on a scene whose children are a comment and an attribute node,
  neither of them classifiable, \<^verbatim>\<open>run\<close> prints the processing line, sets the tolerance
  and returns true.
\<close>

theorem no_classifiable_child_returns_true:
  "list_all (\<lambda>c. \<not> actionable (demo_env (demo_cmd [''xcsg-file'', ''stl''] 10 ''m.xcsg'')
                                   (scene [comment_node, attribute_node])) c)
     (children (scene [comment_node, attribute_node])) \<and>
   run (demo_env (demo_cmd [''xcsg-file'', ''stl''] 10 ''m.xcsg'')
          (scene [comment_node, attribute_node])) =
     ([Cout ''xcsg processing: m.xcsg\<newline>'', SetSecantTolerance (Some ''0.01'')], Inr True)"
  by code_simp

theorem no_classifiable_child_is_silent_witness:
  "make_solid (demo_env (demo_cmd [''stl''] 10 ''m.xcsg'') (scene [comment_node]))
     (XmlNode ''void'' False [] []) = None \<and>
   run_xsolid (demo_env (demo_cmd [''stl''] 10 ''m.xcsg'') (scene [comment_node]))
     (XmlNode ''void'' False [] []) ''m.xcsg'' =
     ([Cout ''processing solid: void\<newline>''], Inl (LogicError ''xcsg tree contains no data. '')) \<and>
   run_file (demo_env (demo_cmd [''stl''] 10 ''m.xcsg'') (scene [comment_node])) ''m.xcsg'' =
     ([Cout ''xcsg processing: m.xcsg\<newline>'', SetSecantTolerance (Some ''0.01'')], Inr True)"
proof -
  let ?E = "demo_env (demo_cmd [''stl''] 10 ''m.xcsg'') (scene [comment_node])"
  have v: "make_solid ?E (XmlNode ''void'' False [] []) = None"
    by (simp add: demo_defs)
  have x: "Exists ?E ''m.xcsg''" by (simp add: demo_defs)
  have t: "tree_path ?E ''m.xcsg'' = ''m.xcsg''" by code_simp
  have r: "read_xml ?E (tree_path ?E ''m.xcsg'') = Some (Some (scene [comment_node]))"
    by (simp add: demo_defs)
  have g: "tag (scene [comment_node]) = ''xcsg''" by (simp add: scene_def)
  have a: "\<forall>c \<in> set (children (scene [comment_node])). \<not> actionable ?E c"
    by (simp add: actionable_def demo_defs)
  have sp: "scene_prologue ?E ''m.xcsg'' (scene [comment_node]) =
              [Cout ''xcsg processing: m.xcsg\<newline>'', SetSecantTolerance (Some ''0.01'')]"
    by code_simp
  from no_classifiable_child_is_silent [of ?E "''m.xcsg''" "scene [comment_node]"
      "XmlNode ''void'' False [] []" "''m.xcsg''"] v x r g a sp
  show ?thesis by (simp add: endl_def)
qed

subsection \<open>The normalised path\<close>






























subsection \<open>Failures that are not recovered\<close>

lemma run_xshape2d_clipper_fails:
  assumes "make_shape2d env node = Some shape"
    and "\<not> max_bool (cmd env) < xshape2d.nbool shape"
    and "clipper_compute env (create_clipper_profile shape) = Inl e"
  shows "snd (run_xshape2d env node f) = Inl e \<and> encoders (fst (run_xshape2d env node f)) = []"
  using assms
  by (simp add: run_xshape2d_def fst_andthen snd_andthen emit_def call_def encoders_Cons
                encoders_Nil encoders_append)

lemma run_xsolid_other_exception:
  assumes "make_solid env node = Some obj"
    and "\<not> max_bool (cmd env) < xsolid.nbool obj"
    and "carve_compute env (create_carve_mesh obj) = Raised e csg"
    and "\<And>msg. e \<noteq> CarveException msg"
  shows "snd (run_xsolid env node f) = Inl e"
  using assms(1,2)
  by (simp add: run_xsolid_within_budget try_compute_other [OF assms(3,4)] snd_andthen
                emit_def)

lemma triangulate_lumps_first_failure:
  assumes "\<forall>q \<in> set pre. needs_triangulation q \<longrightarrow> (\<exists>t. triangulate_kernel env q = Inr t)"
    and "needs_triangulation p" and "triangulate_kernel env p = Inl e"
  shows "snd (triangulate_lumps env i (pre @ p # post) polyset) = Inl e"
  using assms(1)
proof (induction pre arbitrary: i polyset)
  case Nil
  from assms(2,3) show ?case by (simp add: triangulate_lumps_fail)
next
  case (Cons q rest)
  show ?case
  proof (cases "needs_triangulation q")
    case True
    with Cons.prems obtain t where "triangulate_kernel env q = Inr t" by auto
    with True Cons show ?thesis by (simp add: triangulate_lumps_tri)
  next
    case False
    with Cons show ?thesis by (simp add: triangulate_lumps_add)
  qed
qed

lemma run_file_propagates:
  assumes "Exists env p" and "read_xml env (tree_path env p) = Some (Some root)"
    and "tag root = ''xcsg''" and "children root = pre @ c # post"
    and "\<forall>x \<in> set pre. \<not> actionable env x" and "actionable env c"
    and "snd (process_child env c (tree_path env p)) = Inl e"
  shows "snd (run_file env p) = Inl e"
  using assms(7)
  by (simp add: run_file_scene [OF assms(1,2,3)] assms(4) run_children_first [OF assms(5,6)]
                snd_andthen process_child_def)

subsection \<open>The stages of the solid path\<close>

lemma returns_Inr: "returns r = (\<exists>a. r = Inr a)"
  by (cases r) (simp_all add: returns_def)

lemma andthen_unit: "andthen m (\<lambda>_. emit []) = (m :: unit run)"
  by (cases m) (auto simp: andthen_def emit_def split: sum.splits)

lemma write_each3d_append:
  "write_each3d env polyset f sp (xs @ ys) =
     andthen (write_each3d env polyset f sp xs) (\<lambda>_. write_each3d env polyset f sp ys)"
proof (induction xs)
  case Nil
  show ?case by (simp add: andthen_emit)
next
  case (Cons enc rest)
  show ?case
    by (cases "write3d env enc (label3d enc) polyset f sp")
       (simp add: Cons.IH andthen_def split: sum.splits prod.splits)
qed

lemma write_each3d_single:
  "write_each3d env polyset f sp [enc] = write3d env enc (label3d enc) polyset f sp"
  by (simp add: andthen_unit)

lemma write_each3d_when:
  "label = label3d enc \<Longrightarrow>
   (if b then write3d env enc label polyset f sp else emit []) =
   write_each3d env polyset f sp (if b then [enc] else [])"
  by (simp add: andthen_unit)

lemma write_each3d_stl:
  "(if b then write3d env (STL True) ''Created STL file     : '' polyset f sp
    else if c then write3d env (STL False) ''Created STL file     : '' polyset f sp
    else emit []) =
   write_each3d env polyset f sp (if b then [STL True] else if c then [STL False] else [])"
  by (simp add: andthen_unit)

lemma export3d_each:
  "export3d env polyset f sp = write_each3d env polyset f sp (enabled3d (cmd env))"
proof -
  have csg: "(if b then write3d env CSG ''Created OpenSCAD file: '' polyset f sp else emit []) =
             write_each3d env polyset f sp (if b then [CSG] else [])" for b
    by (rule write_each3d_when) simp
  have amf: "(if b then write3d env AMF ''Created AMF file     : '' polyset f sp else emit []) =
             write_each3d env polyset f sp (if b then [AMF] else [])" for b
    by (rule write_each3d_when) simp
  have obj: "(if b then write3d env OBJ ''Created OBJ file     : '' polyset f sp else emit []) =
             write_each3d env polyset f sp (if b then [OBJ] else [])" for b
    by (rule write_each3d_when) simp
  have off: "(if b then write3d env OFF ''Created OFF file(s)  : '' polyset f sp else emit []) =
             write_each3d env polyset f sp (if b then [OFF] else [])" for b
    by (rule write_each3d_when) simp
  show ?thesis
    by (simp only: export3d_def enabled3d_def write_each3d_append csg amf obj off
                   write_each3d_stl)
qed

lemma write3d_ok:
  "write_mesh env enc polyset f = Inr path \<Longrightarrow>
   write3d env enc label polyset f sp =
     ([Cout label, WriteMesh enc polyset f, Cout (DisplayName env path sp @ endl)], Inr ())"
  by (simp add: write3d_def andthen_def emit_def call_def)

lemma write3d_failed:
  "write_mesh env enc polyset f = Inl e \<Longrightarrow>
   write3d env enc label polyset f sp = ([Cout label, WriteMesh enc polyset f], Inl e)"
  by (simp add: write3d_def andthen_def emit_def call_def)

lemma write_each3d_first_failure:
  assumes "writes3d env polyset f before" and "write_mesh env enc polyset f = Inl e"
  shows "snd (write_each3d env polyset f sp (before @ enc # after)) = Inl e \<and>
         encoders (fst (write_each3d env polyset f sp (before @ enc # after))) = before @ [enc]"
  using assms(1)
proof (induction before)
  case Nil
  from assms(2) show ?case
    by (simp add: write3d_failed andthen_def encoders_Cons encoders_Nil)
next
  case (Cons x rest)
  then obtain path where "write_mesh env x polyset f = Inr path" and "writes3d env polyset f rest"
    by (auto simp: writes3d_def returns_Inr)
  with Cons.IH show ?case
    by (simp add: write3d_ok fst_andthen snd_andthen encoders_Cons encoders_Nil encoders_append)
qed

lemma write_each3d_all_ok:
  "writes3d env polyset f encs \<Longrightarrow>
   snd (write_each3d env polyset f sp encs) = Inr () \<and>
   encoders (fst (write_each3d env polyset f sp encs)) = encs"
proof (induction encs)
  case Nil
  show ?case by (simp add: emit_def encoders_Nil)
next
  case (Cons x rest)
  then obtain path where "write_mesh env x polyset f = Inr path" and "writes3d env polyset f rest"
    by (auto simp: writes3d_def returns_Inr)
  with Cons.IH show ?case
    by (simp add: write3d_ok fst_andthen snd_andthen encoders_Cons encoders_Nil encoders_append)
qed

lemma write_each3d_head:
  "WriteMesh enc polyset f \<in> set (fst (write_each3d env polyset f sp (enc # rest)))"
  by (cases "write_mesh env enc polyset f")
     (simp_all add: write3d_ok write3d_failed fst_andthen)

lemma triangulate_lumps_all_ok:
  "triangulates env csg \<Longrightarrow>
   snd (triangulate_lumps env i csg polyset) = Inr (polyset @ map (mesh_part env) csg)"
proof (induction csg arbitrary: i polyset)
  case Nil
  show ?case by simp
next
  case (Cons q rest)
  then have rest: "triangulates env rest" by (simp add: triangulates_def)
  show ?case
  proof (cases "needs_triangulation q")
    case True
    with Cons.prems obtain t where t: "triangulate_kernel env q = Inr t"
      by (auto simp: triangulates_def returns_Inr)
    with True Cons.IH [OF rest, of "Suc i" "polyset @ [t]"] show ?thesis
      by (simp add: triangulate_lumps_tri mesh_part_def)
  next
    case False
    with Cons.IH [OF rest, of "Suc i" "polyset @ [q]"] show ?thesis
      by (simp add: triangulate_lumps_add mesh_part_def)
  qed
qed

lemma encoders_triangulate_lumps: "encoders (fst (triangulate_lumps env i csg polyset)) = []"
  using in_order_triangulate_lumps [of env i csg polyset] by (simp add: in_order_Nil)

lemma finish_xsolid_triangulated:
  assumes "triangulates env csg"
  shows "finish_xsolid env csg f sp =
           (Cout (lumps_text (length csg)) # fst (triangulate_lumps env 0 csg []) @
            Cout (''...Exporting results '' @ endl) #
            fst (export3d env (map (mesh_part env) csg) f sp),
            snd (export3d env (map (mesh_part env) csg) f sp))"
  using triangulate_lumps_all_ok [OF assms, of 0 "[]"]
  by (simp add: finish_xsolid_returns)

lemma finish_xsolid_triangulator_fails:
  assumes "triangulates env pre" and "needs_triangulation p"
    and "triangulate_kernel env p = Inl e"
  shows "finish_xsolid env (pre @ p # post) f sp =
           (Cout (lumps_text (length (pre @ p # post))) #
            fst (triangulate_lumps env 0 (pre @ p # post) []), Inl e)"
proof -
  from assms(1)
  have "\<forall>q \<in> set pre. needs_triangulation q \<longrightarrow> (\<exists>t. triangulate_kernel env q = Inr t)"
    by (simp add: triangulates_def returns_Inr list_all_iff)
  from triangulate_lumps_first_failure [OF this assms(2,3)]
  have "snd (triangulate_lumps env 0 (pre @ p # post) []) = Inl e" .
  then show ?thesis by (rule finish_xsolid_fails)
qed

lemma try_compute_leaves:
  assumes "carve_leaves env obj csg"
  shows "\<exists>line. try_compute env obj =
           ([TimerInit (sint (ucast (xsolid.nbool obj) :: 32 word)), CarveCompute, Cout line],
            Inr csg)"
  using assms
  by (auto simp: carve_leaves_def try_compute_carve try_compute_completed)

lemma run_xsolid_continues:
  assumes "make_solid env node = Some obj" and "\<not> max_bool (cmd env) < xsolid.nbool obj"
    and "try_compute env obj = (tevs, Inr csg)"
  shows "run_xsolid env node f =
           (solid_prologue node obj @ tevs @
            fst (finish_xsolid env csg f (0 < count (cmd env) ''fullpath'')),
            case snd (finish_xsolid env csg f (0 < count (cmd env) ''fullpath'')) of
              Inl e \<Rightarrow> Inl e | Inr u \<Rightarrow> Inr True)"
  using assms(3)
  by (cases "finish_xsolid env csg f (0 < count (cmd env) ''fullpath'')")
     (simp add: run_xsolid_within_budget [OF assms(1,2)] andthen_def emit_def split: sum.splits)

lemma encoders_solid_prologue: "encoders (solid_prologue node obj) = []"
  by (simp add: solid_prologue_def encoders_Cons encoders_Nil encoders_append)

lemma projection_empty:
  "list_all (\<lambda>ev. g ev = None) tr \<Longrightarrow> List.map_filter g tr = []"
  by (induction tr) (simp_all add: List.map_filter_def)

lemma no_lump_calls_export3d:
  "compute2d_calls (fst (export3d env polyset f sp)) = [] \<and>
   add_calls (fst (export3d env polyset f sp)) = []"
proof -
  have "list_all (\<lambda>ev. compute2d_arg ev = None) (fst (export3d env polyset f sp))"
    and "list_all (\<lambda>ev. add_arg ev = None) (fst (export3d env polyset f sp))"
    by (rule events_export3d, simp_all)+
  then show ?thesis
    by (simp add: compute2d_calls_def add_calls_def projection_empty)
qed

lemma finish_xsolid_head:
  "\<exists>rest. fst (finish_xsolid env csg f sp) = Cout (lumps_text (length csg)) # rest"
  by (cases "snd (triangulate_lumps env 0 csg [])")
     (simp_all add: finish_xsolid_fails finish_xsolid_returns)

lemma lump_calls_finish_xsolid:
  "compute2d_calls (fst (finish_xsolid env csg f sp)) =
     compute2d_calls (fst (triangulate_lumps env 0 csg [])) \<and>
   add_calls (fst (finish_xsolid env csg f sp)) =
     add_calls (fst (triangulate_lumps env 0 csg []))"
  by (cases "snd (triangulate_lumps env 0 csg [])")
     (simp_all add: finish_xsolid_fails finish_xsolid_returns calls_simps no_lump_calls_export3d)

lemma encoders_member: "ev \<in> set tr \<Longrightarrow> encoder_of ev = Some enc \<Longrightarrow> encoders tr \<noteq> []"
  by (induction tr) (auto simp: encoders_Cons split: option.splits)

lemma run_xsolid_after_carve_exception:
  assumes "make_solid env node = Some obj" and "\<not> max_bool (cmd env) < xsolid.nbool obj"
    and "carve_compute env (create_carve_mesh obj) = Raised (CarveException msg) csg"
  shows "run_xsolid env node f =
           (solid_prologue node obj @
            [TimerInit (sint (ucast (xsolid.nbool obj) :: 32 word)), CarveCompute,
             Cout (''WARNING: (carve error): '' @ msg @ endl)] @
            fst (finish_xsolid env csg f (0 < count (cmd env) ''fullpath'')),
            case snd (finish_xsolid env csg f (0 < count (cmd env) ''fullpath'')) of
              Inl e \<Rightarrow> Inl e | Inr u \<Rightarrow> Inr True)"
  by (rule run_xsolid_continues [OF assms(1,2) try_compute_carve [OF assms(3)]])

lemma lump_calls_solid_prologue:
  "compute2d_calls (solid_prologue node obj) = [] \<and> add_calls (solid_prologue node obj) = [] \<and>
   exported_meshes (solid_prologue node obj) = []"
  by (simp add: solid_prologue_def calls_simps)

text \<open>
  C1, as amended: when the carve kernel throws \<^verbatim>\<open>carve::exception\<close> during the reduction
  of a solid within budget, \<^verbatim>\<open>run_xsolid\<close> does not end there: the warning and the lump
  count follow the kernel call, and the triangulation loop runs on the lumps the kernel
  object holds. When the triangulator returns on every lump that needs it (always so on
  zero lumps), the export follows: the ``Exporting results'' line is printed, the first
  enabled encoder is invoked, every encoder receives the combined mesh, and when the
  enabled encoders return the run returns true after invoking all of them. When the
  triangulator fails on a lump, its exception ends the run before any encoder is invoked.
\<close>

theorem carve_exception_downgraded:
  assumes "make_solid env node = Some obj"
    and "\<not> max_bool (cmd env) < xsolid.nbool obj"
    and "carve_compute env (create_carve_mesh obj) = Raised (CarveException msg) csg"
  shows "prefix (solid_prologue node obj @
                 [TimerInit (sint (ucast (xsolid.nbool obj) :: 32 word)), CarveCompute,
                  Cout (''WARNING: (carve error): '' @ msg @ endl),
                  Cout (lumps_text (length csg))])
                (fst (run_xsolid env node f)) \<and>
         prefix (compute2d_calls (fst (run_xsolid env node f)))
                (filter needs_triangulation csg) \<and>
         (triangulates env csg \<longrightarrow>
            compute2d_calls (fst (run_xsolid env node f)) = filter needs_triangulation csg \<and>
            add_calls (fst (run_xsolid env node f)) =
              filter (\<lambda>q. \<not> needs_triangulation q) csg \<and>
            Cout (''...Exporting results '' @ endl) \<in> set (fst (run_xsolid env node f)) \<and>
            list_all (\<lambda>m. m = map (mesh_part env) csg)
              (exported_meshes (fst (run_xsolid env node f))) \<and>
            (enabled3d (cmd env) \<noteq> [] \<longrightarrow> encoders (fst (run_xsolid env node f)) \<noteq> []) \<and>
            (writes3d env (map (mesh_part env) csg) f (enabled3d (cmd env)) \<longrightarrow>
               snd (run_xsolid env node f) = Inr True \<and>
               encoders (fst (run_xsolid env node f)) = enabled3d (cmd env))) \<and>
         (csg = pre @ p # post \<and> triangulates env pre \<and> needs_triangulation p \<and>
          triangulate_kernel env p = Inl e \<longrightarrow>
            snd (run_xsolid env node f) = Inl e \<and>
            encoders (fst (run_xsolid env node f)) = [] \<and>
            exported_meshes (fst (run_xsolid env node f)) = [])"
proof -
  let ?sp = "0 < count (cmd env) ''fullpath''"
  let ?mesh = "map (mesh_part env) csg"
  note run = run_xsolid_after_carve_exception [OF assms, of f]
  have head: "prefix (solid_prologue node obj @
                 [TimerInit (sint (ucast (xsolid.nbool obj) :: 32 word)), CarveCompute,
                  Cout (''WARNING: (carve error): '' @ msg @ endl),
                  Cout (lumps_text (length csg))])
                (fst (run_xsolid env node f))"
    using finish_xsolid_head [of env csg f ?sp] by (auto simp: run)
  have calls: "compute2d_calls (fst (run_xsolid env node f)) =
                 compute2d_calls (fst (triangulate_lumps env 0 csg []))"
    "add_calls (fst (run_xsolid env node f)) = add_calls (fst (triangulate_lumps env 0 csg []))"
    by (simp_all add: run calls_simps lump_calls_solid_prologue lump_calls_finish_xsolid)
  have pre: "prefix (compute2d_calls (fst (run_xsolid env node f)))
                    (filter needs_triangulation csg)"
    using triangulate_lumps_calls_prefix [of env 0 csg "[]"] by (simp add: calls)
  have ok: "compute2d_calls (fst (run_xsolid env node f)) = filter needs_triangulation csg \<and>
            add_calls (fst (run_xsolid env node f)) =
              filter (\<lambda>q. \<not> needs_triangulation q) csg \<and>
            Cout (''...Exporting results '' @ endl) \<in> set (fst (run_xsolid env node f)) \<and>
            list_all (\<lambda>m. m = ?mesh) (exported_meshes (fst (run_xsolid env node f))) \<and>
            (enabled3d (cmd env) \<noteq> [] \<longrightarrow> encoders (fst (run_xsolid env node f)) \<noteq> []) \<and>
            (writes3d env ?mesh f (enabled3d (cmd env)) \<longrightarrow>
               snd (run_xsolid env node f) = Inr True \<and>
               encoders (fst (run_xsolid env node f)) = enabled3d (cmd env))"
    if tri: "triangulates env csg"
  proof -
    note fin = finish_xsolid_triangulated [OF tri, of f ?sp]
    from triangulate_lumps_all_ok [OF tri, of 0 "[]"]
    have "snd (triangulate_lumps env 0 csg []) = Inr ?mesh" by simp
    from triangulate_lumps_returns [OF this]
    have c: "compute2d_calls (fst (run_xsolid env node f)) = filter needs_triangulation csg"
      and a: "add_calls (fst (run_xsolid env node f)) =
                filter (\<lambda>q. \<not> needs_triangulation q) csg"
      by (simp_all add: calls)
    have x: "Cout (''...Exporting results '' @ endl) \<in> set (fst (run_xsolid env node f))"
      by (simp add: run fin)
    have m: "list_all (\<lambda>m. m = ?mesh) (exported_meshes (fst (run_xsolid env node f)))"
      using exported_meshes_export3d [of ?mesh env f ?sp]
      by (simp add: run fin calls_simps lump_calls_solid_prologue
                    exported_meshes_triangulate_lumps)
    have enc: "encoders (fst (run_xsolid env node f)) = encoders (fst (export3d env ?mesh f ?sp))"
      by (simp add: run fin encoders_append encoders_Cons encoders_Nil encoders_solid_prologue
                    encoders_triangulate_lumps)
    have h: "encoders (fst (run_xsolid env node f)) \<noteq> []" if "enabled3d (cmd env) \<noteq> []"
    proof -
      from that obtain first rest where "enabled3d (cmd env) = first # rest"
        by (cases "enabled3d (cmd env)") auto
      with write_each3d_head [of first ?mesh f env ?sp rest]
      have "WriteMesh first ?mesh f \<in> set (fst (export3d env ?mesh f ?sp))"
        by (simp add: export3d_each)
      then show ?thesis
        unfolding enc by (rule encoders_member) simp
    qed
    have w: "snd (run_xsolid env node f) = Inr True \<and>
             encoders (fst (run_xsolid env node f)) = enabled3d (cmd env)"
      if "writes3d env ?mesh f (enabled3d (cmd env))"
    proof -
      from write_each3d_all_ok [OF that, of ?sp]
      have r: "snd (export3d env ?mesh f ?sp) = Inr ()"
        and o: "encoders (fst (export3d env ?mesh f ?sp)) = enabled3d (cmd env)"
        by (simp_all add: export3d_each)
      from r have "snd (run_xsolid env node f) = Inr True"
        by (simp add: run fin)
      with o show ?thesis by (simp add: enc)
    qed
    from c a x m h w show ?thesis by blast
  qed
  have bad: "snd (run_xsolid env node f) = Inl e \<and>
             encoders (fst (run_xsolid env node f)) = [] \<and>
             exported_meshes (fst (run_xsolid env node f)) = []"
    if "csg = pre @ p # post \<and> triangulates env pre \<and> needs_triangulation p \<and>
        triangulate_kernel env p = Inl e"
  proof -
    from that have csg: "csg = pre @ p # post" and t: "triangulates env pre"
      and n: "needs_triangulation p" and k: "triangulate_kernel env p = Inl e"
      by simp_all
    note fin = finish_xsolid_triangulator_fails [OF t n k, of post f ?sp]
    show ?thesis
      unfolding run csg fin
      by (simp add: encoders_append encoders_Cons encoders_Nil encoders_solid_prologue
                    encoders_triangulate_lumps calls_simps lump_calls_solid_prologue
                    exported_meshes_triangulate_lumps)
  qed
  from head pre ok bad show ?thesis by blast
qed

text \<open>
  C1, as stated, fails: the carve kernel throws \<^verbatim>\<open>carve::exception\<close> while it holds the
  box, whose faces are quadrilaterals, and the triangulator fails on it. Line 191 is
  outside the \<^verbatim>\<open>try\<close> statement, so \<^verbatim>\<open>run_xsolid\<close> ends with the triangulator's
  exception; with STL enabled no encoder is invoked and the export is not announced.
\<close>

theorem export_skipped_after_carve_exception:
  "make_solid stuck_env cube_node = Some \<lparr>xsolid.nbool = 0, create_carve_mesh = 0\<rparr> \<and>
   carve_compute stuck_env 0 = Raised (CarveException ''degenerate face'') [box] \<and>
   enabled3d (cmd stuck_env) = [STL True] \<and>
   snd (run_xsolid stuck_env cube_node ''m.xcsg'') = Inl (OtherException ''triangulator'') \<and>
   encoders (fst (run_xsolid stuck_env cube_node ''m.xcsg'')) = [] \<and>
   Cout ''...Exporting results \<newline>'' \<notin> set (fst (run_xsolid stuck_env cube_node ''m.xcsg'')) \<and>
   last (fst (run_xsolid stuck_env cube_node ''m.xcsg'')) = Compute2d box"
  by code_simp

theorem carve_exception_downgraded_witness:
  "make_solid degenerate_env cube_node = Some \<lparr>xsolid.nbool = 0, create_carve_mesh = 0\<rparr> \<and>
   carve_compute degenerate_env 0 = Raised (CarveException ''degenerate face'') [tetra] \<and>
   triangulates degenerate_env [tetra] \<and>
   writes3d degenerate_env [tetra] ''m.xcsg'' [STL True] \<and>
   snd (run_xsolid degenerate_env cube_node ''m.xcsg'') = Inr True \<and>
   encoders (fst (run_xsolid degenerate_env cube_node ''m.xcsg'')) = [STL True] \<and>
   add_calls (fst (run_xsolid degenerate_env cube_node ''m.xcsg'')) = [tetra] \<and>
   compute2d_calls (fst (run_xsolid degenerate_env cube_node ''m.xcsg'')) = [] \<and>
   Cout ''...Exporting results \<newline>'' \<in>
     set (fst (run_xsolid degenerate_env cube_node ''m.xcsg'')) \<and>
   snd (run_xsolid stuck_env cube_node ''m.xcsg'') = Inl (OtherException ''triangulator'') \<and>
   exported_meshes (fst (run_xsolid stuck_env cube_node ''m.xcsg'')) = []"
proof -
  let ?obj = "\<lparr>xsolid.nbool = 0, create_carve_mesh = 0::nat\<rparr>"
  have s: "make_solid degenerate_env cube_node = Some ?obj"
    and b: "\<not> max_bool (cmd degenerate_env) < xsolid.nbool ?obj"
    and c: "carve_compute degenerate_env (create_carve_mesh ?obj) =
              Raised (CarveException ''degenerate face'') [tetra]"
    by (simp_all add: degenerate_env_def demo_defs)
  have t: "triangulates degenerate_env [tetra]"
    by code_simp
  have en: "enabled3d (cmd degenerate_env) = [STL True]"
    by code_simp
  have mp: "mesh_part degenerate_env tetra = tetra"
    by code_simp
  have w: "writes3d degenerate_env [tetra] ''m.xcsg'' [STL True]"
    by code_simp
  have nt: "\<not> needs_triangulation tetra"
    by code_simp
  have good: "snd (run_xsolid degenerate_env cube_node ''m.xcsg'') = Inr True \<and>
     encoders (fst (run_xsolid degenerate_env cube_node ''m.xcsg'')) = [STL True] \<and>
     add_calls (fst (run_xsolid degenerate_env cube_node ''m.xcsg'')) = [tetra] \<and>
     compute2d_calls (fst (run_xsolid degenerate_env cube_node ''m.xcsg'')) = [] \<and>
     Cout (''...Exporting results '' @ endl) \<in>
       set (fst (run_xsolid degenerate_env cube_node ''m.xcsg''))"
    using carve_exception_downgraded [OF s b c, of "''m.xcsg''" "[]" tetra "[]" "OtherException []"]
      t w nt
    by (simp add: en mp)
  have s': "make_solid stuck_env cube_node = Some ?obj"
    and b': "\<not> max_bool (cmd stuck_env) < xsolid.nbool ?obj"
    and c': "carve_compute stuck_env (create_carve_mesh ?obj) =
              Raised (CarveException ''degenerate face'') [box]"
    and k': "triangulate_kernel stuck_env box = Inl (OtherException ''triangulator'')"
    by (simp_all add: stuck_env_def demo_defs)
  have nb: "needs_triangulation box" and t0: "triangulates stuck_env []"
    by code_simp+
  have bad: "snd (run_xsolid stuck_env cube_node ''m.xcsg'') = Inl (OtherException ''triangulator'') \<and>
     exported_meshes (fst (run_xsolid stuck_env cube_node ''m.xcsg'')) = []"
    using carve_exception_downgraded [OF s' b' c', of "''m.xcsg''" "[]" box "[]"
        "OtherException ''triangulator''"] nb t0 k'
    by simp
  from s c t w good bad show ?thesis by (simp add: endl_def)
qed

subsection \<open>Failures reach the runner and the run\<close>

lemma run_xsolid_triangulator_fails:
  assumes "make_solid env node = Some obj" and "\<not> max_bool (cmd env) < xsolid.nbool obj"
    and "carve_leaves env obj (pre @ p # post)" and "triangulates env pre"
    and "needs_triangulation p" and "triangulate_kernel env p = Inl e"
  shows "snd (run_xsolid env node f) = Inl e \<and> encoders (fst (run_xsolid env node f)) = []"
proof -
  from try_compute_leaves [OF assms(3)] obtain line where
    t: "try_compute env obj =
          ([TimerInit (sint (ucast (xsolid.nbool obj) :: 32 word)), CarveCompute, Cout line],
           Inr (pre @ p # post))"
    by blast
  note fin = finish_xsolid_triangulator_fails [OF assms(4,5,6), of post f
      "0 < count (cmd env) ''fullpath''"]
  show ?thesis
    unfolding run_xsolid_continues [OF assms(1,2) t] fin
    by (simp add: encoders_append encoders_Cons encoders_Nil encoders_solid_prologue
                  encoders_triangulate_lumps)
qed

lemma run_xsolid_encoder_fails:
  assumes "make_solid env node = Some obj" and "\<not> max_bool (cmd env) < xsolid.nbool obj"
    and "carve_leaves env obj lumps" and "triangulates env lumps"
    and "enabled3d (cmd env) = before @ enc # after"
    and "writes3d env (map (mesh_part env) lumps) f before"
    and "write_mesh env enc (map (mesh_part env) lumps) f = Inl e"
  shows "snd (run_xsolid env node f) = Inl e \<and>
         encoders (fst (run_xsolid env node f)) = before @ [enc]"
proof -
  let ?sp = "0 < count (cmd env) ''fullpath''"
  from try_compute_leaves [OF assms(3)] obtain line where
    t: "try_compute env obj =
          ([TimerInit (sint (ucast (xsolid.nbool obj) :: 32 word)), CarveCompute, Cout line],
           Inr lumps)"
    by blast
  note fin = finish_xsolid_triangulated [OF assms(4), of f ?sp]
  from write_each3d_first_failure [OF assms(6,7), of ?sp after]
  have "snd (export3d env (map (mesh_part env) lumps) f ?sp) = Inl e"
    and "encoders (fst (export3d env (map (mesh_part env) lumps) f ?sp)) = before @ [enc]"
    by (simp_all add: export3d_each assms(5))
  then show ?thesis
    unfolding run_xsolid_continues [OF assms(1,2) t] fin
    by (simp add: encoders_append encoders_Cons encoders_Nil encoders_solid_prologue
                  encoders_triangulate_lumps)
qed

lemma run_xshape2d_continues:
  assumes "make_shape2d env node = Some shape"
    and "\<not> max_bool (cmd env) < xshape2d.nbool shape"
    and "clipper_compute env (create_clipper_profile shape) = Inr contours"
  shows "snd (run_xshape2d env node f) =
           (case snd (export2d env contours f (0 < count (cmd env) ''fullpath'')) of
              Inl e \<Rightarrow> Inl e | Inr u \<Rightarrow> Inr True)"
  using assms
  by (simp add: run_xshape2d_def snd_andthen emit_def call_def split: sum.splits)

lemma write_polygons_first_failure:
  assumes "writes_polygons env first" and "write_polygon env poly = Inl e"
  shows "snd (write_polygons env (first @ poly # others)) = Inl e"
  using assms(1)
proof (induction first)
  case Nil
  from assms(2) show ?case by (simp add: snd_andthen call_def)
next
  case (Cons q rest)
  then have "write_polygon env q = Inr ()" and "writes_polygons env rest"
    by (auto simp: writes_polygons_def returns_Inr)
  with Cons.IH show ?case by (simp add: snd_andthen call_def)
qed

lemma write_polygons_all_ok:
  "writes_polygons env contours \<Longrightarrow> snd (write_polygons env contours) = Inr ()"
proof (induction contours)
  case Nil
  show ?case by (simp add: emit_def)
next
  case (Cons q rest)
  then have "write_polygon env q = Inr ()" and "writes_polygons env rest"
    by (auto simp: writes_polygons_def returns_Inr)
  with Cons.IH show ?case by (simp add: snd_andthen call_def)
qed

lemma export2d_polygon_fails:
  assumes "0 < count (cmd env) ''csg''" and "writes_polygons env first"
    and "write_polygon env poly = Inl e"
  shows "snd (export2d env (first @ poly # others) f sp) = Inl e"
  using assms(1) write_polygons_first_failure [OF assms(2,3), of others]
  by (simp add: export2d_def snd_andthen emit_def)

lemma export2d_csg_ok:
  assumes "0 < count (cmd env) ''csg'' \<longrightarrow> writes_polygons env contours"
  shows "snd (if 0 < count (cmd env) ''csg''
              then andthen (emit [OpenscadCsg f])
                  (\<lambda>_. andthen (write_polygons env contours)
                  (\<lambda>_. emit [Cout (''Created OpenSCAD file: '' @
                                    DisplayName env (openscad_path env f) sp @ endl)]))
              else emit []) = Inr ()"
  using assms write_polygons_all_ok [of env contours]
  by (simp add: snd_andthen emit_def)

lemma snd_write2d: "snd (write2d env enc label contours f sp) =
    (case write_profile env enc contours f of Inl e \<Rightarrow> Inl e | Inr path \<Rightarrow> Inr ())"
  by (simp add: write2d_def snd_andthen emit_def call_def split: sum.splits)

lemma export2d_svg_fails:
  assumes "0 < count (cmd env) ''csg'' \<longrightarrow> writes_polygons env contours"
    and "0 < count (cmd env) ''svg''" and "write_profile env SVG contours f = Inl e"
  shows "snd (export2d env contours f sp) = Inl e"
  using assms(2,3) export2d_csg_ok [OF assms(1), of f sp]
  by (simp add: export2d_def snd_andthen snd_write2d)

lemma export2d_dxf_fails:
  assumes "0 < count (cmd env) ''csg'' \<longrightarrow> writes_polygons env contours"
    and "0 < count (cmd env) ''svg'' \<longrightarrow> returns (write_profile env SVG contours f)"
    and "0 < count (cmd env) ''dxf''" and "write_profile env DXF contours f = Inl e"
  shows "snd (export2d env contours f sp) = Inl e"
  using assms(2,3,4) export2d_csg_ok [OF assms(1), of f sp]
  by (auto simp: export2d_def snd_andthen snd_write2d emit_def returns_Inr)

lemma run_propagates:
  assumes "Exists env path" and "read_xml env (tree_path env path) = Some (Some root)"
    and "tag root = ''xcsg''" and "children root = elder @ child # younger"
    and "\<forall>x \<in> set elder. \<not> actionable env x" and "actionable env child"
    and "snd (if is_solid env child then run_xsolid env child (tree_path env path)
              else run_xshape2d env child (tree_path env path)) = Inl e"
  shows "snd (run_file env path) = Inl e \<and>
         (parsed_ok (cmd env) \<and> 0 < count (cmd env) ''xcsg-file'' \<and>
          get_xcsg_file (cmd env) = Inr arg \<and> normalise arg = path \<longrightarrow>
            snd (run env) = Inl e)"
proof -
  from assms(7) have "snd (process_child env child (tree_path env path)) = Inl e"
    by (simp add: process_child_def)
  from run_file_propagates [OF assms(1-6) this] show ?thesis
    by (auto simp: run_named)
qed

text \<open>
  C8: only \<^verbatim>\<open>carve::exception\<close> thrown inside the \<^verbatim>\<open>try\<close> statement of \<^verbatim>\<open>run_xsolid\<close> is
  intercepted; every other failure is the outcome of the runner. On the 2D path: a
  failure of the clipper kernel (before any encoder is invoked), of \<^verbatim>\<open>write_polygon\<close>
  on a contour, of the SVG encoder and of the DXF encoder. On the solid path: an
  exception of another class from the carve kernel, a failure of the triangulator on the
  first lump that needs it (of any class, and also after a caught carve exception), and
  the failure of the first enabled encoder that fails. A runner's failure is the outcome
  of \<^verbatim>\<open>run\<close>.
\<close>

theorem kernel_failures_propagate:
  "(make_shape2d env node = Some shape \<and> \<not> max_bool (cmd env) < xshape2d.nbool shape \<and>
    clipper_compute env (create_clipper_profile shape) = Inl e \<longrightarrow>
      snd (run_xshape2d env node f) = Inl e \<and> encoders (fst (run_xshape2d env node f)) = []) \<and>
   (make_solid env node = Some obj \<and> \<not> max_bool (cmd env) < xsolid.nbool obj \<and>
    carve_compute env (create_carve_mesh obj) = Raised e csg \<and>
    (\<forall>msg. e \<noteq> CarveException msg) \<longrightarrow>
      snd (run_xsolid env node f) = Inl e) \<and>
   (make_solid env node = Some obj \<and> \<not> max_bool (cmd env) < xsolid.nbool obj \<and>
    carve_leaves env obj (pre @ p # post) \<and> triangulates env pre \<and>
    needs_triangulation p \<and> triangulate_kernel env p = Inl e \<longrightarrow>
      snd (run_xsolid env node f) = Inl e \<and> encoders (fst (run_xsolid env node f)) = []) \<and>
   (make_solid env node = Some obj \<and> \<not> max_bool (cmd env) < xsolid.nbool obj \<and>
    carve_leaves env obj lumps \<and> triangulates env lumps \<and>
    enabled3d (cmd env) = before @ enc # after \<and>
    writes3d env (map (mesh_part env) lumps) f before \<and>
    write_mesh env enc (map (mesh_part env) lumps) f = Inl e \<longrightarrow>
      snd (run_xsolid env node f) = Inl e \<and>
      encoders (fst (run_xsolid env node f)) = before @ [enc]) \<and>
   (make_shape2d env node = Some shape \<and> \<not> max_bool (cmd env) < xshape2d.nbool shape \<and>
    clipper_compute env (create_clipper_profile shape) = Inr (first @ poly # others) \<and>
    0 < count (cmd env) ''csg'' \<and> writes_polygons env first \<and>
    write_polygon env poly = Inl e \<longrightarrow>
      snd (run_xshape2d env node f) = Inl e) \<and>
   (make_shape2d env node = Some shape \<and> \<not> max_bool (cmd env) < xshape2d.nbool shape \<and>
    clipper_compute env (create_clipper_profile shape) = Inr contours \<and>
    (0 < count (cmd env) ''csg'' \<longrightarrow> writes_polygons env contours) \<and>
    0 < count (cmd env) ''svg'' \<and> write_profile env SVG contours f = Inl e \<longrightarrow>
      snd (run_xshape2d env node f) = Inl e) \<and>
   (make_shape2d env node = Some shape \<and> \<not> max_bool (cmd env) < xshape2d.nbool shape \<and>
    clipper_compute env (create_clipper_profile shape) = Inr contours \<and>
    (0 < count (cmd env) ''csg'' \<longrightarrow> writes_polygons env contours) \<and>
    (0 < count (cmd env) ''svg'' \<longrightarrow> returns (write_profile env SVG contours f)) \<and>
    0 < count (cmd env) ''dxf'' \<and> write_profile env DXF contours f = Inl e \<longrightarrow>
      snd (run_xshape2d env node f) = Inl e) \<and>
   (Exists env path \<and> read_xml env (tree_path env path) = Some (Some root) \<and>
    tag root = ''xcsg'' \<and> children root = elder @ child # younger \<and>
    (\<forall>x \<in> set elder. \<not> actionable env x) \<and> actionable env child \<and>
    snd (if is_solid env child then run_xsolid env child (tree_path env path)
         else run_xshape2d env child (tree_path env path)) = Inl e \<longrightarrow>
      snd (run_file env path) = Inl e \<and>
      (parsed_ok (cmd env) \<and> 0 < count (cmd env) ''xcsg-file'' \<and>
       get_xcsg_file (cmd env) = Inr arg \<and> normalise arg = path \<longrightarrow>
         snd (run env) = Inl e))"
proof (intro conjI impI; (elim conjE)?)
  assume "make_shape2d env node = Some shape" "\<not> max_bool (cmd env) < xshape2d.nbool shape"
    "clipper_compute env (create_clipper_profile shape) = Inl e"
  then show "snd (run_xshape2d env node f) = Inl e"
    and "encoders (fst (run_xshape2d env node f)) = []"
    by (simp_all add: run_xshape2d_clipper_fails)
next
  assume "make_solid env node = Some obj" "\<not> max_bool (cmd env) < xsolid.nbool obj"
    "carve_compute env (create_carve_mesh obj) = Raised e csg"
    "\<forall>msg. e \<noteq> CarveException msg"
  then show "snd (run_xsolid env node f) = Inl e"
    by (simp add: run_xsolid_other_exception)
next
  assume "make_solid env node = Some obj" "\<not> max_bool (cmd env) < xsolid.nbool obj"
    "carve_leaves env obj (pre @ p # post)" "triangulates env pre"
    "needs_triangulation p" "triangulate_kernel env p = Inl e"
  then show "snd (run_xsolid env node f) = Inl e"
    and "encoders (fst (run_xsolid env node f)) = []"
    by (simp_all add: run_xsolid_triangulator_fails)
next
  assume "make_solid env node = Some obj" "\<not> max_bool (cmd env) < xsolid.nbool obj"
    "carve_leaves env obj lumps" "triangulates env lumps"
    "enabled3d (cmd env) = before @ enc # after"
    "writes3d env (map (mesh_part env) lumps) f before"
    "write_mesh env enc (map (mesh_part env) lumps) f = Inl e"
  then show "snd (run_xsolid env node f) = Inl e"
    and "encoders (fst (run_xsolid env node f)) = before @ [enc]"
    by (simp_all add: run_xsolid_encoder_fails)
next
  assume "make_shape2d env node = Some shape" "\<not> max_bool (cmd env) < xshape2d.nbool shape"
    "clipper_compute env (create_clipper_profile shape) = Inr (first @ poly # others)"
    "0 < count (cmd env) ''csg''" "writes_polygons env first" "write_polygon env poly = Inl e"
  then show "snd (run_xshape2d env node f) = Inl e"
    by (simp add: run_xshape2d_continues export2d_polygon_fails)
next
  assume "make_shape2d env node = Some shape" "\<not> max_bool (cmd env) < xshape2d.nbool shape"
    "clipper_compute env (create_clipper_profile shape) = Inr contours"
    "0 < count (cmd env) ''csg'' \<longrightarrow> writes_polygons env contours"
    "0 < count (cmd env) ''svg''" "write_profile env SVG contours f = Inl e"
  then show "snd (run_xshape2d env node f) = Inl e"
    by (simp add: run_xshape2d_continues export2d_svg_fails)
next
  assume "make_shape2d env node = Some shape" "\<not> max_bool (cmd env) < xshape2d.nbool shape"
    "clipper_compute env (create_clipper_profile shape) = Inr contours"
    "0 < count (cmd env) ''csg'' \<longrightarrow> writes_polygons env contours"
    "0 < count (cmd env) ''svg'' \<longrightarrow> returns (write_profile env SVG contours f)"
    "0 < count (cmd env) ''dxf''" "write_profile env DXF contours f = Inl e"
  then show "snd (run_xshape2d env node f) = Inl e"
    by (simp add: run_xshape2d_continues export2d_dxf_fails)
next
  assume h: "Exists env path" "read_xml env (tree_path env path) = Some (Some root)"
    "tag root = ''xcsg''" "children root = elder @ child # younger"
    "\<forall>x \<in> set elder. \<not> actionable env x" "actionable env child"
    "snd (if is_solid env child then run_xsolid env child (tree_path env path)
          else run_xshape2d env child (tree_path env path)) = Inl e"
  from run_propagates [OF h] show "snd (run_file env path) = Inl e" by blast
  assume "parsed_ok (cmd env)" "0 < count (cmd env) ''xcsg-file''"
    "get_xcsg_file (cmd env) = Inr arg" "normalise arg = path"
  with run_propagates [OF h, of arg] show "snd (run env) = Inl e" by blast
qed

theorem kernel_failures_propagate_witness:
  "clipper_compute (failing_env (OtherException ''kernel'')) 0 = Inl (OtherException ''kernel'') \<and>
   snd (run_xshape2d (failing_env (OtherException ''kernel'')) square_node ''m.xcsg'') =
     Inl (OtherException ''kernel'') \<and>
   carve_compute (failing_env (OtherException ''kernel'')) 0 =
     Raised (OtherException ''kernel'') [] \<and>
   snd (run_xsolid (failing_env (OtherException ''kernel'')) cube_node ''m.xcsg'') =
     Inl (OtherException ''kernel'') \<and>
   triangulate_kernel stuck_env box = Inl (OtherException ''triangulator'') \<and>
   snd (run_xsolid stuck_env cube_node ''m.xcsg'') = Inl (OtherException ''triangulator'') \<and>
   encoders (fst (run_xsolid stuck_env cube_node ''m.xcsg'')) = [] \<and>
   enabled3d (cmd full_disk_env) = [CSG, OBJ] @ STL True # [] \<and>
   snd (run_xsolid full_disk_env cube_node ''m.xcsg'') = Inl (OtherException ''disk full'') \<and>
   encoders (fst (run_xsolid full_disk_env cube_node ''m.xcsg'')) = [CSG, OBJ, STL True] \<and>
   snd (run_xshape2d (full_disk_env\<lparr>write_polygon := (\<lambda>q. Inl (OtherException ''polygon''))\<rparr>)
          square_node ''m.xcsg'') = Inl (OtherException ''polygon'') \<and>
   snd (run_xshape2d
          (full_disk_env\<lparr>write_profile := (\<lambda>enc polyset path. Inl (OtherException ''svg''))\<rparr>)
          square_node ''m.xcsg'') = Inl (OtherException ''svg'') \<and>
   snd (run_xshape2d full_disk_env square_node ''m.xcsg'') = Inl (OtherException ''disk full'') \<and>
   snd (run_file full_disk_env ''m.xcsg'') = Inl (OtherException ''disk full'') \<and>
   snd (run full_disk_env) = Inl (OtherException ''disk full'')"
proof -
  let ?K = "OtherException ''kernel''"
  let ?E = "failing_env ?K"
  let ?D = "full_disk_env"
  let ?P = "full_disk_env\<lparr>write_polygon := (\<lambda>q. Inl (OtherException ''polygon''))\<rparr>"
  let ?S = "full_disk_env\<lparr>write_profile := (\<lambda>enc polyset path. Inl (OtherException ''svg''))\<rparr>"
  let ?shape = "\<lparr>xshape2d.nbool = 0, create_clipper_profile = 0::nat\<rparr>"
  let ?obj = "\<lparr>xsolid.nbool = 0, create_carve_mesh = 0::nat\<rparr>"
  have h1: "make_shape2d ?E square_node = Some ?shape"
    "\<not> max_bool (cmd ?E) < xshape2d.nbool ?shape"
    "clipper_compute ?E (create_clipper_profile ?shape) = Inl ?K"
    by (simp_all add: failing_env_def demo_defs)
  have c1: "snd (run_xshape2d ?E square_node ''m.xcsg'') = Inl ?K"
    using kernel_failures_propagate [where env = ?E and node = square_node and shape = ?shape
        and e = ?K and f = "''m.xcsg''", THEN conjunct1] h1
    by blast
  have h2: "make_solid ?E cube_node = Some ?obj"
    "\<not> max_bool (cmd ?E) < xsolid.nbool ?obj"
    "carve_compute ?E (create_carve_mesh ?obj) = Raised ?K []"
    "\<forall>msg. ?K \<noteq> CarveException msg"
    by (simp_all add: failing_env_def demo_defs)
  have c2: "snd (run_xsolid ?E cube_node ''m.xcsg'') = Inl ?K"
    using kernel_failures_propagate [where env = ?E and node = cube_node and obj = ?obj
        and e = ?K and csg = "[]" and f = "''m.xcsg''", THEN conjunct2, THEN conjunct1] h2
    by blast
  have h3: "make_solid stuck_env cube_node = Some ?obj"
    "\<not> max_bool (cmd stuck_env) < xsolid.nbool ?obj"
    "carve_leaves stuck_env ?obj ([] @ box # [])"
    "triangulate_kernel stuck_env box = Inl (OtherException ''triangulator'')"
    by (simp_all add: stuck_env_def demo_defs carve_leaves_def)
  have h3': "triangulates stuck_env []" "needs_triangulation box"
    by code_simp+
  have c3: "snd (run_xsolid stuck_env cube_node ''m.xcsg'') = Inl (OtherException ''triangulator'') \<and>
            encoders (fst (run_xsolid stuck_env cube_node ''m.xcsg'')) = []"
    using kernel_failures_propagate [where env = stuck_env and node = cube_node and obj = ?obj
        and pre = "[]" and p = box and post = "[]" and e = "OtherException ''triangulator''"
        and f = "''m.xcsg''", THEN conjunct2, THEN conjunct2, THEN conjunct1] h3 h3'
    by blast
  have h4: "make_solid ?D cube_node = Some ?obj"
    "\<not> max_bool (cmd ?D) < xsolid.nbool ?obj"
    "carve_leaves ?D ?obj [box, tetra]"
    by (simp_all add: full_disk_env_def demo_defs carve_leaves_def)
  have h4': "triangulates ?D [box, tetra]"
    "enabled3d (cmd ?D) = [CSG, OBJ] @ STL True # []"
    "writes3d ?D (map (mesh_part ?D) [box, tetra]) ''m.xcsg'' [CSG, OBJ]"
    "write_mesh ?D (STL True) (map (mesh_part ?D) [box, tetra]) ''m.xcsg'' =
       Inl (OtherException ''disk full'')"
    by code_simp+
  have c4: "snd (run_xsolid ?D cube_node ''m.xcsg'') = Inl (OtherException ''disk full'') \<and>
            encoders (fst (run_xsolid ?D cube_node ''m.xcsg'')) = [CSG, OBJ] @ [STL True]"
    using kernel_failures_propagate [where env = ?D and node = cube_node and obj = ?obj
        and lumps = "[box, tetra]" and before = "[CSG, OBJ]" and enc = "STL True"
        and after = "[]" and e = "OtherException ''disk full''" and f = "''m.xcsg''", THEN conjunct2, THEN conjunct2, THEN conjunct2, THEN conjunct1] h4 h4'
    by blast
  have h5: "make_shape2d ?P square_node = Some ?shape"
    "\<not> max_bool (cmd ?P) < xshape2d.nbool ?shape"
    "clipper_compute ?P (create_clipper_profile ?shape) = Inr ([] @ [0, 1, 2, 3] # [])"
    "0 < count (cmd ?P) ''csg''" "writes_polygons ?P []"
    "write_polygon ?P [0, 1, 2, 3] = Inl (OtherException ''polygon'')"
    by (simp_all add: full_disk_env_def demo_defs writes_polygons_def)
  have c5: "snd (run_xshape2d ?P square_node ''m.xcsg'') = Inl (OtherException ''polygon'')"
    using kernel_failures_propagate [where env = ?P and node = square_node and shape = ?shape
        and first = "[]" and poly = "[0, 1, 2, 3]" and others = "[]"
        and e = "OtherException ''polygon''" and f = "''m.xcsg''", THEN conjunct2, THEN conjunct2, THEN conjunct2, THEN conjunct2, THEN conjunct1] h5
    by blast
  have h6: "make_shape2d ?S square_node = Some ?shape"
    "\<not> max_bool (cmd ?S) < xshape2d.nbool ?shape"
    "clipper_compute ?S (create_clipper_profile ?shape) = Inr [[0, 1, 2, 3]]"
    "0 < count (cmd ?S) ''csg'' \<longrightarrow> writes_polygons ?S [[0, 1, 2, 3]]"
    "0 < count (cmd ?S) ''svg''"
    "write_profile ?S SVG [[0, 1, 2, 3]] ''m.xcsg'' = Inl (OtherException ''svg'')"
    by (simp_all add: full_disk_env_def demo_defs writes_polygons_def returns_def)
  have c6: "snd (run_xshape2d ?S square_node ''m.xcsg'') = Inl (OtherException ''svg'')"
    using kernel_failures_propagate [where env = ?S and node = square_node and shape = ?shape
        and contours = "[[0, 1, 2, 3]]" and e = "OtherException ''svg''" and f = "''m.xcsg''", THEN conjunct2, THEN conjunct2, THEN conjunct2, THEN conjunct2, THEN conjunct2, THEN conjunct1] h6
    by blast
  have h7: "make_shape2d ?D square_node = Some ?shape"
    "\<not> max_bool (cmd ?D) < xshape2d.nbool ?shape"
    "clipper_compute ?D (create_clipper_profile ?shape) = Inr [[0, 1, 2, 3]]"
    "0 < count (cmd ?D) ''csg'' \<longrightarrow> writes_polygons ?D [[0, 1, 2, 3]]"
    "0 < count (cmd ?D) ''svg'' \<longrightarrow> returns (write_profile ?D SVG [[0, 1, 2, 3]] ''m.xcsg'')"
    "0 < count (cmd ?D) ''dxf''"
    "write_profile ?D DXF [[0, 1, 2, 3]] ''m.xcsg'' = Inl (OtherException ''disk full'')"
    by (simp_all add: full_disk_env_def demo_defs writes_polygons_def returns_def)
  have c7: "snd (run_xshape2d ?D square_node ''m.xcsg'') = Inl (OtherException ''disk full'')"
    using kernel_failures_propagate [where env = ?D and node = square_node and shape = ?shape
        and contours = "[[0, 1, 2, 3]]" and e = "OtherException ''disk full''"
        and f = "''m.xcsg''", THEN conjunct2, THEN conjunct2, THEN conjunct2, THEN conjunct2, THEN conjunct2, THEN conjunct2, THEN conjunct1] h7
    by blast
  have tp: "tree_path ?D ''m.xcsg'' = ''m.xcsg''" and nm: "normalise ''m.xcsg'' = ''m.xcsg''"
    by code_simp+
  have h8: "Exists ?D ''m.xcsg''"
    "read_xml ?D (tree_path ?D ''m.xcsg'') = Some (Some (scene [square_node]))"
    "tag (scene [square_node]) = ''xcsg''"
    "children (scene [square_node]) = [] @ square_node # []"
    "\<forall>x \<in> set []. \<not> actionable ?D x" "actionable ?D square_node"
    "\<not> is_solid ?D square_node"
    "parsed_ok (cmd ?D)" "0 < count (cmd ?D) ''xcsg-file''"
    "get_xcsg_file (cmd ?D) = Inr ''m.xcsg''"
    by (simp_all add: full_disk_env_def demo_defs actionable_def)
  have pc: "snd (if is_solid ?D square_node then run_xsolid ?D square_node (tree_path ?D ''m.xcsg'')
                 else run_xshape2d ?D square_node (tree_path ?D ''m.xcsg'')) =
              Inl (OtherException ''disk full'')"
    using c7 h8(7) by (simp add: tp)
  have c8: "snd (run_file ?D ''m.xcsg'') = Inl (OtherException ''disk full'') \<and>
            snd (run ?D) = Inl (OtherException ''disk full'')"
    using kernel_failures_propagate [where env = ?D and path = "''m.xcsg''"
        and root = "scene [square_node]" and elder = "[]" and child = square_node
        and younger = "[]" and e = "OtherException ''disk full''" and arg = "''m.xcsg''", THEN conjunct2, THEN conjunct2, THEN conjunct2, THEN conjunct2, THEN conjunct2, THEN conjunct2, THEN conjunct2]
      h8(1-6,8-10) pc nm
    by blast
  from h1(3) h2(3) h3(4) h4'(2) c1 c2 c3 c4 c5 c6 c7 c8 show ?thesis by simp
qed

subsection \<open>The paths the stages receive\<close>
















end
